theory Spec2Isabelle
  imports Complex_Main
begin

section \<open>Errors\<close>

text \<open>
  Every \<^verbatim>\<open>QL_REQUIRE\<close> and \<^verbatim>\<open>QL_FAIL\<close> of the source throws an exception
  carrying a message.  An exception is the left injection of a sum; the message keeps the
  constant part of the text of the source.  A read the source performs without a bounds check
  (undefined behaviour in C++) is made a separate error value, so that it is never mistaken
  for a result; so is the arithmetic of the loop counter where it leaves the range of a
  \<^verbatim>\<open>long\<close>.
\<close>

datatype error = Error string | OutOfRange string

section \<open>Exposure allocation (exposureallocator.cpp)\<close>

text \<open>
  A \<^verbatim>\<open>std::map<string, Real>\<close> read with \<^verbatim>\<open>operator[]\<close> yields \<open>0.0\<close> for a key
  that is absent.
\<close>

definition at0 :: "(string \<rightharpoonup> real) \<Rightarrow> string \<Rightarrow> real" where
  "at0 m k = (case m k of None \<Rightarrow> 0 | Some v \<Rightarrow> v)"

text \<open>
  The value of a division of two finite doubles: a proper quotient when the denominator is
  not zero, an infinity for a non-zero numerator over zero, and NaN for zero over zero.
  (HOL's own \<open>x / 0\<close> is \<open>0\<close>, which is not what the program computes.)
\<close>

datatype quotient = Value real | Infinity | NaN

definition fdiv :: "real \<Rightarrow> real \<Rightarrow> quotient" where
  "fdiv x y = (if y \<noteq> 0 then Value (x / y) else if x \<noteq> 0 then Infinity else NaN)"

text \<open>
  The netted exposure cube is read with \<^verbatim>\<open>get(nid, date, sample, index)\<close>; the cube is an
  external collaborator and is a function here.  A portfolio is seen by the constructors as
  the sequence of (trade id, netting set id, NPV today) for \<open>i = 0, 1, ...\<close>.
\<close>

type_synonym cube = "string \<Rightarrow> int \<Rightarrow> nat \<Rightarrow> nat \<Rightarrow> real"

record ExposureAllocator =
  nettedExposureCube :: cube
  nettingSetEpeIndex :: nat
  nettingSetEneIndex :: nat

subsection \<open>RelativeFairValueNetExposureAllocator\<close>

record RelativeFairValueNetExposureAllocator = ExposureAllocator +
  tradeValueToday :: "string \<rightharpoonup> real"
  nettingSetPositiveValueToday :: "string \<rightharpoonup> real"
  nettingSetNegativeValueToday :: "string \<rightharpoonup> real"

text \<open>One pass of the constructor's loop body, for trade \<open>i\<close>.\<close>

definition rfvNetStep ::
  "RelativeFairValueNetExposureAllocator \<Rightarrow> string \<times> string \<times> real
     \<Rightarrow> RelativeFairValueNetExposureAllocator" where
  "rfvNetStep A t =
     (case t of (tradeId, nettingSetId, npv) \<Rightarrow>
        let A1 = (if nettingSetPositiveValueToday A nettingSetId = None
                  then A\<lparr>nettingSetPositiveValueToday :=
                            (nettingSetPositiveValueToday A)(nettingSetId \<mapsto> 0),
                          nettingSetNegativeValueToday :=
                            (nettingSetNegativeValueToday A)(nettingSetId \<mapsto> 0)\<rparr>
                  else A);
            A2 = A1\<lparr>tradeValueToday := (tradeValueToday A1)(tradeId \<mapsto> npv)\<rparr>
        in if npv > 0
           then A2\<lparr>nettingSetPositiveValueToday :=
                      (nettingSetPositiveValueToday A2)
                        (nettingSetId \<mapsto> at0 (nettingSetPositiveValueToday A2) nettingSetId + npv)\<rparr>
           else A2\<lparr>nettingSetNegativeValueToday :=
                      (nettingSetNegativeValueToday A2)
                        (nettingSetId \<mapsto> at0 (nettingSetNegativeValueToday A2) nettingSetId + npv)\<rparr>)"

definition RelativeFairValueNetExposureAllocator_new ::
  "cube \<Rightarrow> nat \<Rightarrow> nat \<Rightarrow> (string \<times> string \<times> real) list
     \<Rightarrow> RelativeFairValueNetExposureAllocator" where
  "RelativeFairValueNetExposureAllocator_new c epeIdx eneIdx portfolio =
     foldl rfvNetStep
       \<lparr>nettedExposureCube = c, nettingSetEpeIndex = epeIdx, nettingSetEneIndex = eneIdx,
        tradeValueToday = Map.empty, nettingSetPositiveValueToday = Map.empty,
        nettingSetNegativeValueToday = Map.empty\<rparr>
       portfolio"

definition rfvNet_calculateAllocatedEpe ::
  "RelativeFairValueNetExposureAllocator \<Rightarrow> string \<Rightarrow> string \<Rightarrow> int \<Rightarrow> nat
     \<Rightarrow> error + quotient" where
  "rfvNet_calculateAllocatedEpe A tid nid date sample =
     (if \<not> at0 (nettingSetPositiveValueToday A) nid > 0
      then Inl (Error ''non-zero positive NPV expected'')
      else let netEPE = nettedExposureCube A nid date sample (nettingSetEpeIndex A)
           in Inr (fdiv (netEPE * max (at0 (tradeValueToday A) tid) 0)
                        (at0 (nettingSetPositiveValueToday A) nid)))"

definition rfvNet_calculateAllocatedEne ::
  "RelativeFairValueNetExposureAllocator \<Rightarrow> string \<Rightarrow> string \<Rightarrow> int \<Rightarrow> nat
     \<Rightarrow> error + quotient" where
  "rfvNet_calculateAllocatedEne A tid nid date sample =
     (if \<not> at0 (nettingSetNegativeValueToday A) nid > 0
      then Inl (Error ''non-zero negative NPV expected'')
      else let netENE = nettedExposureCube A nid date sample (nettingSetEneIndex A)
           in Inr (fdiv (netENE * - max (- at0 (tradeValueToday A) tid) 0)
                        (at0 (nettingSetPositiveValueToday A) nid)))"

subsection \<open>RelativeFairValueGrossExposureAllocator\<close>

record RelativeFairValueGrossExposureAllocator = ExposureAllocator +
  g_tradeValueToday :: "string \<rightharpoonup> real"
  nettingSetValueToday :: "string \<rightharpoonup> real"

definition rfvGrossStep ::
  "RelativeFairValueGrossExposureAllocator \<Rightarrow> string \<times> string \<times> real
     \<Rightarrow> RelativeFairValueGrossExposureAllocator" where
  "rfvGrossStep A t =
     (case t of (tradeId, nettingSetId, npv) \<Rightarrow>
        let A1 = (if nettingSetValueToday A nettingSetId = None
                  then A\<lparr>nettingSetValueToday := (nettingSetValueToday A)(nettingSetId \<mapsto> 0)\<rparr>
                  else A);
            A2 = A1\<lparr>g_tradeValueToday := (g_tradeValueToday A1)(tradeId \<mapsto> npv)\<rparr>
        in A2\<lparr>nettingSetValueToday :=
                 (nettingSetValueToday A2)
                   (nettingSetId \<mapsto> at0 (nettingSetValueToday A2) nettingSetId + npv)\<rparr>)"

definition RelativeFairValueGrossExposureAllocator_new ::
  "cube \<Rightarrow> nat \<Rightarrow> nat \<Rightarrow> (string \<times> string \<times> real) list
     \<Rightarrow> RelativeFairValueGrossExposureAllocator" where
  "RelativeFairValueGrossExposureAllocator_new c epeIdx eneIdx portfolio =
     foldl rfvGrossStep
       \<lparr>nettedExposureCube = c, nettingSetEpeIndex = epeIdx, nettingSetEneIndex = eneIdx,
        g_tradeValueToday = Map.empty, nettingSetValueToday = Map.empty\<rparr>
       portfolio"

definition rfvGross_calculateAllocatedEpe ::
  "RelativeFairValueGrossExposureAllocator \<Rightarrow> string \<Rightarrow> string \<Rightarrow> int \<Rightarrow> nat
     \<Rightarrow> error + quotient" where
  "rfvGross_calculateAllocatedEpe A tid nid date sample =
     (if \<not> at0 (nettingSetValueToday A) nid \<noteq> 0
      then Inl (Error ''non-zero netting set value expected'')
      else let netEPE = nettedExposureCube A nid date sample (nettingSetEpeIndex A)
           in Inr (fdiv (netEPE * at0 (g_tradeValueToday A) tid)
                        (at0 (nettingSetValueToday A) nid)))"

definition rfvGross_calculateAllocatedEne ::
  "RelativeFairValueGrossExposureAllocator \<Rightarrow> string \<Rightarrow> string \<Rightarrow> int \<Rightarrow> nat
     \<Rightarrow> error + quotient" where
  "rfvGross_calculateAllocatedEne A tid nid date sample =
     (if \<not> at0 (nettingSetValueToday A) nid \<noteq> 0
      then Inl (Error ''non-zero netting set value expected'')
      else let netENE = nettedExposureCube A nid date sample (nettingSetEneIndex A)
           in Inr (fdiv (netENE * at0 (g_tradeValueToday A) tid)
                        (at0 (nettingSetValueToday A) nid)))"

subsection \<open>RelativeXvaExposureAllocator\<close>

record RelativeXvaExposureAllocator = ExposureAllocator +
  tradeCva :: "string \<rightharpoonup> real"
  tradeDva :: "string \<rightharpoonup> real"
  nettingSetSumCva :: "string \<rightharpoonup> real"
  nettingSetSumDva :: "string \<rightharpoonup> real"

definition rxva_calculateAllocatedEpe ::
  "RelativeXvaExposureAllocator \<Rightarrow> string \<Rightarrow> string \<Rightarrow> int \<Rightarrow> nat \<Rightarrow> error + quotient" where
  "rxva_calculateAllocatedEpe A tid nid date sample =
     (let netEPE = nettedExposureCube A nid date sample (nettingSetEpeIndex A)
      in Inr (fdiv (netEPE * at0 (tradeCva A) tid) (at0 (nettingSetSumCva A) nid)))"

definition rxva_calculateAllocatedEne ::
  "RelativeXvaExposureAllocator \<Rightarrow> string \<Rightarrow> string \<Rightarrow> int \<Rightarrow> nat \<Rightarrow> error + quotient" where
  "rxva_calculateAllocatedEne A tid nid date sample =
     (let netENE = nettedExposureCube A nid date sample (nettingSetEneIndex A)
      in Inr (fdiv (netENE * at0 (tradeDva A) tid) (at0 (nettingSetSumDva A) nid)))"

section \<open>Command line application (ore.cpp)\<close>

text \<open>
  \<^verbatim>\<open>Parameters\<close> holds the groups of name/value pairs read from the configuration file:
  \<^verbatim>\<open>hasGroup\<close> and \<^verbatim>\<open>has\<close> test for presence, \<^verbatim>\<open>get\<close> throws when the group or the key
  is missing.
\<close>

type_synonym Parameters = "string \<rightharpoonup> (string \<rightharpoonup> string)"

definition hasGroup :: "Parameters \<Rightarrow> string \<Rightarrow> bool" where
  "hasGroup p g = (p g \<noteq> None)"

definition has :: "Parameters \<Rightarrow> string \<Rightarrow> string \<Rightarrow> bool" where
  "has p g k = (case p g of None \<Rightarrow> False | Some grp \<Rightarrow> grp k \<noteq> None)"

definition get :: "Parameters \<Rightarrow> string \<Rightarrow> string \<Rightarrow> string + string" where
  "get p g k =
     (case p g of
        None \<Rightarrow> Inl (''param group not found: '' @ g)
      | Some grp \<Rightarrow>
          (case grp k of
             None \<Rightarrow> Inl (''parameter not found: '' @ k)
           | Some v \<Rightarrow> Inr v))"

text \<open>
  What the body of \<^verbatim>\<open>main\<close> does, one step after the other: it writes to standard output,
  it calls into the libraries (a call returns, or throws a \<^verbatim>\<open>std::exception\<close> with the
  message of \<open>what()\<close>), and in one place it leaves \<^verbatim>\<open>main\<close> with a \<^verbatim>\<open>return\<close>.
\<close>

datatype action = Print string | Call "string option" | Return int

datatype status = Completed | Thrown string | Returned int

fun run_actions :: "action list \<Rightarrow> string list \<Rightarrow> string list \<times> status" where
  "run_actions [] out = (out, Completed)"
| "run_actions (Print t # as) out = run_actions as (out @ [t])"
| "run_actions (Call None # as) out = run_actions as out"
| "run_actions (Call (Some what) # as) out = (out, Thrown what)"
| "run_actions (Return c # as) out = (out, Returned c)"

text \<open>
  The outcome of every group of library calls of one run; the configuration is the
  \<^verbatim>\<open>Parameters\<close> that \<^verbatim>\<open>params.fromFile\<close> has read.
\<close>

record Run =
  params :: Parameters
  readSetup :: "string option"
  loadMarketData :: "string option"
  loadConventions :: "string option"
  loadCurveConfigurations :: "string option"
  buildMarket :: "string option"
  buildEngineFactory :: "string option"
  buildPortfolio :: "string option"
  writeCurves :: "string option"
  writeNpv :: "string option"
  writeCashflow :: "string option"
  simulationSetup :: "string option"
  aggregationScenarioData :: "string option"
  buildCube :: "string option"
  saveCube :: "string option"
  saveScenarioData :: "string option"
  writeXvaReports :: "string option"

text \<open>
  \<^verbatim>\<open>params.hasGroup(g) && params.get(g, "active") == "Y"\<close>: the stage \<open>on\<close> when the
  condition holds, \<open>off\<close> when it does not; \<^verbatim>\<open>get\<close> throws when the group has no such key.
\<close>

definition gated :: "Parameters \<Rightarrow> string \<Rightarrow> action list \<Rightarrow> action list \<Rightarrow> action list" where
  "gated p g on off =
     (if hasGroup p g
      then (case get p g ''active'' of
              Inl what \<Rightarrow> [Call (Some what)]
            | Inr v \<Rightarrow> if v = ''Y'' then on else off)
      else off)"

definition try_block :: "string list \<Rightarrow> Run \<Rightarrow> action list" where
  "try_block argv r =
     [Print ''ORE starting''] @
     (if length argv \<noteq> 2 then [Print ''usage: ORE path/to/ore.xml'', Return (- 1)]
      else
        [Call (readSetup r),
         Print ''Market data loader... '', Call (loadMarketData r), Print ''OK'',
         Print ''Conventions... '', Call (loadConventions r), Print ''OK'',
         Print ''Curve configuration... '', Call (loadCurveConfigurations r), Print ''OK'',
         Print ''Market... '', Call (buildMarket r), Print ''OK'',
         Print ''Engine factory... '', Call (buildEngineFactory r), Print ''OK'',
         Print ''Portfolio... '', Call (buildPortfolio r), Print ''OK'',
         Print ''Curve Report... ''] @
        gated (params r) ''curves'' [Call (writeCurves r), Print ''OK''] [Print ''SKIP''] @
        [Print ''NPV Report... ''] @
        gated (params r) ''npv'' [Call (writeNpv r), Print ''OK''] [Print ''SKIP''] @
        [Print ''Cashflow Report... ''] @
        gated (params r) ''cashflow'' [Call (writeCashflow r), Print ''OK''] [Print ''SKIP''] @
        gated (params r) ''simulation''
          ([Print ''Simulation Setup... '', Call (simulationSetup r), Print ''OK'',
            Print ''Aggregation Scenario Data... '', Call (aggregationScenarioData r),
            Print ''OK'',
            Print ''Build Cube... '', Call (buildCube r), Print ''OK'',
            Print ''Write Cube... ''] @
           (if has (params r) ''simulation'' ''cubeFile''
            then [Call (saveCube r), Print ''OK''] else [Print ''SKIP'']) @
           [Print ''Write Aggregation Scenario Data... ''] @
           (if has (params r) ''simulation'' ''additionalScenarioDataFileName''
            then [Call (saveScenarioData r), Print ''OK''] else [Print ''SKIP'']))
          [Print ''Simulation... '', Print ''SKIP''] @
        [Print ''Aggregation and XVA Reports... ''] @
        gated (params r) ''xva'' [Call (writeXvaReports r), Print ''OK''] [Print ''SKIP''])"

text \<open>
  \<^verbatim>\<open>main\<close>: the standard output and the exit code of the process.  \<open>argv\<close> includes the
  program name, so \<open>argc = length argv\<close>.
\<close>

definition main :: "string list \<Rightarrow> Run \<Rightarrow> string list \<times> int" where
  "main argv r =
     (if length argv = 2 \<and> (argv ! 1 = ''-v'' \<or> argv ! 1 = ''--version'')
      then ([''ORE version''], 0)
      else
        (case run_actions (try_block argv r) [] of
           (out, Returned c) \<Rightarrow> (out, c)
         | (out, Thrown what) \<Rightarrow> (out @ [''Error: '' @ what, ''run time: '', ''ORE done.''], 0)
         | (out, Completed) \<Rightarrow> (out @ [''run time: '', ''ORE done.''], 0)))"

section \<open>Scripted payoff engine: values (scriptengine.cpp and what it uses)\<close>

type_synonym Date = int

text \<open>
  Modelled from the spec: the classes \<^verbatim>\<open>Filter\<close> and \<^verbatim>\<open>RandomVariable\<close>, which the
  engine uses and whose definitions are not part of the sources.  A Filter is a sequence of
  boolean lanes of length \<open>N\<close>, a RandomVariable a sequence of real-valued lanes of length
  \<open>N\<close>; both have a compact, deterministic form (all lanes known to be equal: the size and
  the one value) and a general form (one value per lane).  The doubles of the lanes are
  real numbers here.  The time tag of a RandomVariable is left out: the engine
  resets it on assignment and no code modelled here reads it.
\<close>

datatype Filter = FilterDet nat bool | FilterGen "bool list"

text \<open>Modelled from the spec: the class \<^verbatim>\<open>RandomVariable\<close>, in compact or in general form like a Filter.\<close>

datatype RandomVariable = RVDet nat real | RVGen "real list"

text \<open>
  Modelled from the spec: \<^verbatim>\<open>Filter::size()\<close>, \<^verbatim>\<open>deterministic()\<close>, the lanes, and the read
  of one lane (\<^verbatim>\<open>operator[]\<close>, \<^verbatim>\<open>at\<close>).  In compact form the one value is every lane; in
  general form a read beyond the last lane has no value.
\<close>

fun f_size :: "Filter \<Rightarrow> nat" where
  "f_size (FilterDet n b) = n"
| "f_size (FilterGen bs) = length bs"

text \<open>Modelled from the spec: \<^verbatim>\<open>Filter::deterministic()\<close>, the form the Filter is in.\<close>

fun f_deterministic :: "Filter \<Rightarrow> bool" where
  "f_deterministic (FilterDet n b) = True"
| "f_deterministic (FilterGen bs) = False"

text \<open>Modelled from the spec: the lanes of a Filter; in compact form the one value, \<open>N\<close> times.\<close>

fun f_lanes :: "Filter \<Rightarrow> bool list" where
  "f_lanes (FilterDet n b) = replicate n b"
| "f_lanes (FilterGen bs) = bs"

text \<open>Modelled from the spec: \<^verbatim>\<open>Filter::operator[]\<close> and \<^verbatim>\<open>Filter::at\<close>, the read of one lane.\<close>

fun f_at :: "Filter \<Rightarrow> nat \<Rightarrow> bool option" where
  "f_at (FilterDet n b) k = Some b"
| "f_at (FilterGen bs) k = (if k < length bs then Some (bs ! k) else None)"

text \<open>
  Modelled from the spec: \<^verbatim>\<open>Filter::updateDeterministic()\<close> ``re-scans and collapses if
  equal''; a filter without lanes stays as it is.
\<close>

fun f_updateDeterministic :: "Filter \<Rightarrow> Filter" where
  "f_updateDeterministic (FilterDet n b) = FilterDet n b"
| "f_updateDeterministic (FilterGen []) = FilterGen []"
| "f_updateDeterministic (FilterGen (b # bs)) =
     (if list_all (\<lambda>c. c = b) bs then FilterDet (Suc (length bs)) b else FilterGen (b # bs))"

text \<open>
  Modelled from the spec: the logical operators on Filters (\<^verbatim>\<open>!\<close>, \<^verbatim>\<open>&&\<close>, \<^verbatim>\<open>||\<close>),
  lane by lane; the result is compact when both operands are.  Operands of different
  sizes are rejected.
\<close>

fun f_not :: "Filter \<Rightarrow> Filter" where
  "f_not (FilterDet n b) = FilterDet n (\<not> b)"
| "f_not (FilterGen bs) = FilterGen (map Not bs)"

text \<open>Modelled from the spec: a binary logical operator on Filters, lane by lane.\<close>

definition f_binary :: "(bool \<Rightarrow> bool \<Rightarrow> bool) \<Rightarrow> Filter \<Rightarrow> Filter \<Rightarrow> error + Filter" where
  "f_binary op x y =
     (if f_size x \<noteq> f_size y then Inl (Error ''filter size mismatch'')
      else (case (x, y) of
              (FilterDet n a, FilterDet m b) \<Rightarrow> Inr (FilterDet n (op a b))
            | _ \<Rightarrow> Inr (FilterGen (map2 op (f_lanes x) (f_lanes y)))))"

text \<open>Modelled from the spec: \<^verbatim>\<open>operator&&\<close> on Filters.\<close>

definition f_and :: "Filter \<Rightarrow> Filter \<Rightarrow> error + Filter" where
  "f_and = f_binary (\<and>)"

text \<open>Modelled from the spec: \<^verbatim>\<open>operator||\<close> on Filters.\<close>

definition f_or :: "Filter \<Rightarrow> Filter \<Rightarrow> error + Filter" where
  "f_or = f_binary (\<or>)"

text \<open>
  Modelled from the spec: \<^verbatim>\<open>RandomVariable::size()\<close>, \<^verbatim>\<open>deterministic()\<close>, the lanes, the
  read of one lane, \<^verbatim>\<open>set(k, v)\<close> (``setting a single lane demotes a deterministic variable
  to general form''; the size never changes, so a lane that does not exist cannot be set)
  and \<^verbatim>\<open>updateDeterministic()\<close>.
\<close>

fun r_size :: "RandomVariable \<Rightarrow> nat" where
  "r_size (RVDet n v) = n"
| "r_size (RVGen vs) = length vs"

text \<open>Modelled from the spec: \<^verbatim>\<open>RandomVariable::deterministic()\<close>.\<close>

fun r_deterministic :: "RandomVariable \<Rightarrow> bool" where
  "r_deterministic (RVDet n v) = True"
| "r_deterministic (RVGen vs) = False"

text \<open>Modelled from the spec: the lanes of a RandomVariable.\<close>

fun r_lanes :: "RandomVariable \<Rightarrow> real list" where
  "r_lanes (RVDet n v) = replicate n v"
| "r_lanes (RVGen vs) = vs"

text \<open>Modelled from the spec: \<^verbatim>\<open>RandomVariable::operator[]\<close> and \<^verbatim>\<open>RandomVariable::at\<close>, the read of one lane.\<close>

fun r_at :: "RandomVariable \<Rightarrow> nat \<Rightarrow> real option" where
  "r_at (RVDet n v) k = Some v"
| "r_at (RVGen vs) k = (if k < length vs then Some (vs ! k) else None)"

text \<open>Modelled from the spec: \<^verbatim>\<open>RandomVariable::set(k, v)\<close>.\<close>

definition r_set :: "RandomVariable \<Rightarrow> nat \<Rightarrow> real \<Rightarrow> error + RandomVariable" where
  "r_set x k v =
     (if k < r_size x then Inr (RVGen ((r_lanes x)[k := v]))
      else Inl (Error ''RandomVariable: index out of bounds''))"

text \<open>Modelled from the spec: \<^verbatim>\<open>RandomVariable::updateDeterministic()\<close>.\<close>

fun r_updateDeterministic :: "RandomVariable \<Rightarrow> RandomVariable" where
  "r_updateDeterministic (RVDet n v) = RVDet n v"
| "r_updateDeterministic (RVGen []) = RVGen []"
| "r_updateDeterministic (RVGen (v # vs)) =
     (if list_all (\<lambda>w. w = v) vs then RVDet (Suc (length vs)) v else RVGen (v # vs))"

text \<open>
  Modelled from the spec: \<^verbatim>\<open>conditionalResult(mask, then, else)\<close>, ``a RandomVariable whose
  k-th lane is then[k] if mask[k], otherwise else[k]''; the three sizes must agree.
\<close>

definition conditionalResult ::
  "Filter \<Rightarrow> RandomVariable \<Rightarrow> RandomVariable \<Rightarrow> error + RandomVariable" where
  "conditionalResult f x y =
     (if r_size x \<noteq> f_size f \<or> r_size y \<noteq> f_size f
      then Inl (Error ''conditionalResult: size mismatch'')
      else (case (f, x, y) of
              (FilterDet n b, RVDet m a, RVDet l c) \<Rightarrow> Inr (RVDet n (if b then a else c))
            | _ \<Rightarrow> Inr (RVGen (map (\<lambda>(m, a, c). if m then a else c)
                                  (zip (f_lanes f) (zip (r_lanes x) (r_lanes y)))))))"

text \<open>
  Modelled from the spec: \<^verbatim>\<open>close_enough_all(x, y)\<close>, by which the engine verifies that the
  loop variable ``has not been altered'': the same size and the same value on every lane
  (the tolerance of the comparison of doubles has no counterpart on real numbers).
\<close>

definition close_enough_all :: "RandomVariable \<Rightarrow> RandomVariable \<Rightarrow> bool" where
  "close_enough_all x y = (r_size x = r_size y \<and> r_lanes x = r_lanes y)"

text \<open>
  \<^verbatim>\<open>std::lround\<close>: the nearest integer, halfway cases away from zero.  This is the
  mathematical value; \<^verbatim>\<open>std::lround\<close> returns it when it fits a \<^verbatim>\<open>long\<close> and leaves the
  result unspecified when it does not.
\<close>

definition lround :: "real \<Rightarrow> int" where
  "lround x = (if 0 \<le> x then \<lfloor>x + 1 / 2\<rfloor> else \<lceil>x - 1 / 2\<rceil>)"

text \<open>
  The values of a \<^verbatim>\<open>long\<close> (64 bits, two's complement): from \<open>- 2 ^ 63\<close> to \<open>2 ^ 63 - 1\<close>.
  The bounds, the step and the counter of a \<^verbatim>\<open>FOR\<close> loop are \<^verbatim>\<open>long\<close>s; where a rounded
  bound or the sum \<^verbatim>\<open>cl += sl\<close> leaves this range the source has no defined result, and
  the visitor returns \<open>OutOfRange\<close>.
\<close>

definition in_long :: "int \<Rightarrow> bool" where
  "in_long i = (- 9223372036854775808 \<le> i \<and> i \<le> 9223372036854775807)"

text \<open>
  Modelled from the spec: \<^verbatim>\<open>ValueType\<close>, the tagged union of the engine with its six
  variants (\<^verbatim>\<open>which()\<close> is the constructor).
\<close>

datatype ValueType =
    Number RandomVariable
  | Filter Filter
  | Event Date
  | Currency string
  | Index string
  | Daycounter string

text \<open>
  Modelled from the spec: \<^verbatim>\<open>logicalAnd\<close> and \<^verbatim>\<open>logicalOr\<close> on \<^verbatim>\<open>ValueType\<close>, defined on two
  Filters and a type error otherwise.
\<close>

fun logicalAnd :: "ValueType \<Rightarrow> ValueType \<Rightarrow> error + ValueType" where
  "logicalAnd (Filter x) (Filter y) =
     (case f_and x y of Inl e \<Rightarrow> Inl e | Inr f \<Rightarrow> Inr (Filter f))"
| "logicalAnd x y = Inl (Error ''invalid logicalAnd'')"

text \<open>Modelled from the spec: \<^verbatim>\<open>logicalOr\<close> on \<^verbatim>\<open>ValueType\<close>.\<close>

fun logicalOr :: "ValueType \<Rightarrow> ValueType \<Rightarrow> error + ValueType" where
  "logicalOr (Filter x) (Filter y) =
     (case f_or x y of Inl e \<Rightarrow> Inl e | Inr f \<Rightarrow> Inr (Filter f))"
| "logicalOr x y = Inl (Error ''invalid logicalOr'')"

section \<open>Scripted payoff engine: model, context and syntax tree\<close>

text \<open>
  Modelled from the spec: the pricing model, as far as the nodes modelled here call it: \<^verbatim>\<open>size()\<close>,
  \<^verbatim>\<open>referenceDate()\<close> and \<^verbatim>\<open>pay(amount, obs, pay, ccy)\<close>, which may reject its input.
\<close>

record Model =
  sizeM :: nat
  referenceDate :: Date
  payM :: "RandomVariable \<Rightarrow> Date \<Rightarrow> Date \<Rightarrow> string \<Rightarrow> error + RandomVariable"

text \<open>Modelled from the spec: the \<^verbatim>\<open>Context\<close>, with the scalars, the arrays, the set of constant names and the set of names whose assignments are ignored.\<close>

record Context =
  scalars :: "string \<rightharpoonup> ValueType"
  arrays :: "string \<rightharpoonup> ValueType list"
  constants :: "string set"
  ignoreAssignments :: "string set"

text \<open>
  Modelled from the spec: one entry of the cashflow log, the arguments of
  \<^verbatim>\<open>PayLog::write\<close> as the engine passes them.
\<close>

record PayLogEntry =
  pl_amount :: RandomVariable
  pl_filter :: Filter
  pl_obs :: Date
  pl_pay :: Date
  pl_ccy :: string
  pl_legNo :: int
  pl_cashflowType :: string
  pl_slot :: int

text \<open>
  The node classes with the operators that \<^verbatim>\<open>binaryOp\<close> and \<^verbatim>\<open>unaryOp\<close> apply.  The
  operators themselves work on \<^verbatim>\<open>ValueType\<close> and are declared outside the sources.
\<close>

datatype BinaryOperator =
    OperatorPlus | OperatorMinus | OperatorMultiply | OperatorDivide
  | FunctionMin | FunctionMax | FunctionPow
  | ConditionEq | ConditionNeq | ConditionLt | ConditionLeq | ConditionGeq | ConditionGt

datatype UnaryOperator =
    Negate | FunctionAbs | FunctionExp | FunctionLog | FunctionSqrt
  | FunctionNormalCdf | FunctionNormalPdf | ConditionNot

text \<open>
  The syntax tree.  A child that may be a null pointer is an option.  \<open>BinaryNode\<close> and
  \<open>UnaryNode\<close> stand for the node classes visited through \<^verbatim>\<open>binaryOp\<close> and \<^verbatim>\<open>unaryOp\<close>;
  \<open>UnhandledNode\<close> is a node of a class without a visitor of its own.  The nodes of the
  remaining model functions (black, dcf, days, npv, npvmem, histfixing, discount, fwdComp,
  fwdAvg, aboveprob, belowprob, dateindex and the index evaluation) are not embedded.
\<close>

datatype ASTNode =
    BinaryNode BinaryOperator ASTNode ASTNode
  | UnaryNode UnaryOperator ASTNode
  | ConditionAndNode ASTNode ASTNode
  | ConditionOrNode ASTNode ASTNode
  | ConstantNumberNode real
  | VariableNode string "ASTNode option"
  | DeclarationNumberNode "ASTNode list"
  | SizeOpNode string
  | AssignmentNode ASTNode ASTNode
  | RequireNode ASTNode
  | SequenceNode "ASTNode list"
  | IfThenElseNode ASTNode ASTNode "ASTNode option"
  | LoopNode string ASTNode ASTNode ASTNode ASTNode
  | FunctionPayNode ASTNode ASTNode ASTNode ASTNode
  | FunctionLogPayNode ASTNode ASTNode ASTNode ASTNode
      "ASTNode option" "ASTNode option" "ASTNode option"
  | SortNode "ASTNode option" "ASTNode option" "ASTNode option"
  | PermuteNode "ASTNode option" "ASTNode option" "ASTNode option"
  | UnhandledNode

text \<open>
  What stays fixed during a run: the model (a null pointer is \<open>None\<close>) and the operators on
  \<^verbatim>\<open>ValueType\<close> that the sources do not contain: the binary and unary operators applied by
  \<^verbatim>\<open>binaryOp\<close> and \<^verbatim>\<open>unaryOp\<close>, and \<^verbatim>\<open>typeSafeAssign\<close> (its result is the new value of the
  target).  Each of them may throw.
\<close>

record Env =
  model :: "Model option"
  binaryValueOp :: "BinaryOperator \<Rightarrow> ValueType \<Rightarrow> ValueType \<Rightarrow> error + ValueType"
  unaryValueOp :: "UnaryOperator \<Rightarrow> ValueType \<Rightarrow> error + ValueType"
  typeSafeAssign :: "ValueType \<Rightarrow> ValueType \<Rightarrow> error + ValueType"

text \<open>\<^verbatim>\<open>size_(model ? model->size() : 1)\<close>\<close>

definition sizeN :: "Env \<Rightarrow> nat" where
  "sizeN env = (case model env of None \<Rightarrow> 1 | Some m \<Rightarrow> sizeM m)"

text \<open>
  The state of the runner: the two stacks (the head of the list is the top), the context,
  which the runner mutates in place, and the cashflow log (a null pointer is \<open>None\<close>).
\<close>

record ASTRunner =
  filter_stack :: "Filter list"
  value_stack :: "ValueType list"
  runner_context :: Context
  paylog :: "PayLogEntry list option"

text \<open>
  Modelled from the spec: \<^verbatim>\<open>SafeStack\<close>, whose definition is not part of the sources:
  \<^verbatim>\<open>top\<close> and \<^verbatim>\<open>pop\<close> throw on an empty stack.
\<close>

definition push :: "ValueType \<Rightarrow> ASTRunner \<Rightarrow> ASTRunner" where
  "push v s = s\<lparr>value_stack := v # value_stack s\<rparr>"

text \<open>Modelled from the spec: \<^verbatim>\<open>SafeStack::pop\<close>.\<close>

definition pop :: "ASTRunner \<Rightarrow> error + ValueType \<times> ASTRunner" where
  "pop s =
     (case value_stack s of
        [] \<Rightarrow> Inl (Error ''stack is empty'')
      | v # vs \<Rightarrow> Inr (v, s\<lparr>value_stack := vs\<rparr>))"

text \<open>Modelled from the spec: \<^verbatim>\<open>SafeStack::top\<close> on the filter stack.\<close>

definition filter_top :: "ASTRunner \<Rightarrow> error + Filter" where
  "filter_top s =
     (case filter_stack s of
        [] \<Rightarrow> Inl (Error ''stack is empty'')
      | f # fs \<Rightarrow> Inr f)"

text \<open>Modelled from the spec: \<^verbatim>\<open>SafeStack::push\<close> on the filter stack.\<close>

definition filter_push :: "Filter \<Rightarrow> ASTRunner \<Rightarrow> ASTRunner" where
  "filter_push f s = s\<lparr>filter_stack := f # filter_stack s\<rparr>"

text \<open>Modelled from the spec: \<^verbatim>\<open>SafeStack::pop\<close> on the filter stack.\<close>

definition filter_pop :: "ASTRunner \<Rightarrow> error + ASTRunner" where
  "filter_pop s =
     (case filter_stack s of
        [] \<Rightarrow> Inl (Error ''stack is empty'')
      | f # fs \<Rightarrow> Inr (s\<lparr>filter_stack := fs\<rparr>))"

text \<open>
  \<^verbatim>\<open>getVariableRef\<close> returns a reference into the context and an index; the reference is
  the place it points to: a scalar, or an element of an array.
\<close>

datatype VarRef = ScalarRef string | ArrayRef string nat

definition deref :: "Context \<Rightarrow> VarRef \<Rightarrow> error + ValueType" where
  "deref c r =
     (case r of
        ScalarRef name \<Rightarrow>
          (case scalars c name of
             None \<Rightarrow> Inl (OutOfRange ''dangling reference'')
           | Some v \<Rightarrow> Inr v)
      | ArrayRef name i \<Rightarrow>
          (case arrays c name of
             None \<Rightarrow> Inl (OutOfRange ''dangling reference'')
           | Some vec \<Rightarrow>
               if i < length vec then Inr (vec ! i)
               else Inl (OutOfRange ''dangling reference'')))"

definition assign_ref :: "Context \<Rightarrow> VarRef \<Rightarrow> ValueType \<Rightarrow> Context" where
  "assign_ref c r v =
     (case r of
        ScalarRef name \<Rightarrow> c\<lparr>scalars := (scalars c)(name \<mapsto> v)\<rparr>
      | ArrayRef name i \<Rightarrow>
          (case arrays c name of
             None \<Rightarrow> c
           | Some vec \<Rightarrow> c\<lparr>arrays := (arrays c)(name \<mapsto> vec[i := v])\<rparr>))"

section \<open>Scripted payoff engine: SORT and PERMUTE\<close>

text \<open>
  Sequencing of steps that may throw: the first error ends the loop.
\<close>

fun foldE :: "('a \<Rightarrow> 's \<Rightarrow> error + 's) \<Rightarrow> 'a list \<Rightarrow> 's \<Rightarrow> error + 's" where
  "foldE f [] s = Inr s"
| "foldE f (x # xs) s = (case f x s of Inl e \<Rightarrow> Inl e | Inr s' \<Rightarrow> foldE f xs s')"

fun mapE :: "('a \<Rightarrow> error + 'b) \<Rightarrow> 'a list \<Rightarrow> error + 'b list" where
  "mapE f [] = Inr []"
| "mapE f (x # xs) =
     (case f x of
        Inl e \<Rightarrow> Inl e
      | Inr y \<Rightarrow> (case mapE f xs of Inl e \<Rightarrow> Inl e | Inr ys \<Rightarrow> Inr (y # ys)))"

text \<open>
  The vectors \<^verbatim>\<open>x\<close>, \<^verbatim>\<open>y\<close>, \<^verbatim>\<open>p\<close> hold pointers to the RandomVariables of the elements of
  an array of the context.  A pointer is the place it points to, the name of the array and
  the index of the element, so that two vectors filled from the same array share their
  targets as they do in the source.
\<close>

type_synonym Loc = "string \<times> nat"

fun is_Number :: "ValueType \<Rightarrow> bool" where
  "is_Number (Number r) = True"
| "is_Number v = False"

text \<open>
  The three blocks that fill \<^verbatim>\<open>x\<close>, \<^verbatim>\<open>y\<close> and \<^verbatim>\<open>p\<close> from \<^verbatim>\<open>n.args[0..2]\<close>; \<open>what\<close> is
  the letter in the messages.
\<close>

definition collect :: "string \<Rightarrow> ASTNode option \<Rightarrow> Context \<Rightarrow> error + Loc list" where
  "collect what arg c =
     (case arg of
        None \<Rightarrow> Inr []
      | Some (VariableNode name sub) \<Rightarrow>
          (if sub \<noteq> None then Inl (Error (what @ '' must not be indexed''))
           else (case arrays c name of
                   None \<Rightarrow> Inl (Error ''did not find array with name'')
                 | Some vec \<Rightarrow>
                     if list_all is_Number vec then Inr (map (Pair name) [0..<length vec])
                     else Inl (Error (what @ '' must be NUMBER''))))
      | Some other \<Rightarrow> Inl (Error (what @ '' must be a variable'')))"

text \<open>Following a pointer, and the operations of the source on its target.\<close>

definition rv_at :: "Context \<Rightarrow> Loc \<Rightarrow> error + RandomVariable" where
  "rv_at c l =
     (case arrays c (fst l) of
        None \<Rightarrow> Inl (OutOfRange ''dangling pointer'')
      | Some vec \<Rightarrow>
          if snd l < length vec
          then (case vec ! snd l of
                  Number r \<Rightarrow> Inr r
                | other \<Rightarrow> Inl (OutOfRange ''dangling pointer''))
          else Inl (OutOfRange ''dangling pointer''))"

text \<open>\<^verbatim>\<open>x[c]->size()\<close>\<close>

definition rv_size :: "Context \<Rightarrow> Loc \<Rightarrow> error + nat" where
  "rv_size c l = (case rv_at c l of Inl e \<Rightarrow> Inl e | Inr r \<Rightarrow> Inr (r_size r))"

text \<open>\<^verbatim>\<open>(*x[c])[k]\<close>, a read without a bounds check in the source.\<close>

definition rv_lane :: "Context \<Rightarrow> nat \<Rightarrow> Loc \<Rightarrow> error + real" where
  "rv_lane c k l =
     (case rv_at c l of
        Inl e \<Rightarrow> Inl e
      | Inr r \<Rightarrow>
          (case r_at r k of
             None \<Rightarrow> Inl (OutOfRange ''RandomVariable: lane read out of bounds'')
           | Some v \<Rightarrow> Inr v))"

text \<open>\<^verbatim>\<open>y[c]->set(k, v)\<close>\<close>

definition rv_set :: "Loc \<Rightarrow> nat \<Rightarrow> real \<Rightarrow> Context \<Rightarrow> error + Context" where
  "rv_set l k v c =
     (case rv_at c l of
        Inl e \<Rightarrow> Inl e
      | Inr r \<Rightarrow>
          (case r_set r k v of
             Inl e \<Rightarrow> Inl e
           | Inr r' \<Rightarrow>
               (case arrays c (fst l) of
                  None \<Rightarrow> Inl (OutOfRange ''dangling pointer'')
                | Some vec \<Rightarrow>
                    Inr (c\<lparr>arrays := (arrays c)(fst l \<mapsto> vec[snd l := Number r'])\<rparr>))))"

text \<open>
  The loop that compares the sizes of \<^verbatim>\<open>x[c]\<close>, \<^verbatim>\<open>y[c]\<close> and, when \<open>withP\<close>, \<^verbatim>\<open>p[c]\<close>.
\<close>

definition checkSizes :: "Context \<Rightarrow> Loc list \<Rightarrow> Loc list \<Rightarrow> Loc list \<Rightarrow> bool \<Rightarrow> error + unit" where
  "checkSizes c x y p withP =
     foldE (\<lambda>i u.
              (case rv_size c (x ! i) of Inl e \<Rightarrow> Inl e | Inr nx \<Rightarrow>
              (case rv_size c (y ! i) of Inl e \<Rightarrow> Inl e | Inr ny \<Rightarrow>
                 if nx \<noteq> ny then Inl (Error ''x[c] size must match y[c] size'')
                 else if \<not> withP then Inr u
                 else (case rv_size c (p ! i) of Inl e \<Rightarrow> Inl e | Inr np \<Rightarrow>
                         if nx \<noteq> np then Inl (Error ''x[c] size must match p[c] size'')
                         else Inr u))))
           [0..<length x] ()"

text \<open>
  \<^verbatim>\<open>visit(SortNode&)\<close>.  One pass of the loop over the lanes \<open>k\<close>, without and with a
  permutation array.  \<^verbatim>\<open>std::sort\<close> leaves the order of equal keys open; the sort of the
  pairs is the stable one here.
\<close>

definition sortLane :: "Filter \<Rightarrow> Loc list \<Rightarrow> Loc list \<Rightarrow> nat \<Rightarrow> Context \<Rightarrow> error + Context" where
  "sortLane flt x y k c =
     (case f_at flt k of
        None \<Rightarrow> Inl (OutOfRange ''Filter: lane read out of bounds'')
      | Some False \<Rightarrow> Inr c
      | Some True \<Rightarrow>
          (case mapE (rv_lane c k) x of
             Inl e \<Rightarrow> Inl e
           | Inr val \<Rightarrow>
               foldE (\<lambda>i c'. rv_set (y ! i) k (sort val ! i) c') [0..<length x] c))"

definition sortLaneP ::
  "Filter \<Rightarrow> Loc list \<Rightarrow> Loc list \<Rightarrow> Loc list \<Rightarrow> nat \<Rightarrow> Context \<Rightarrow> error + Context" where
  "sortLaneP flt x y p k c =
     (case f_at flt k of
        None \<Rightarrow> Inl (OutOfRange ''Filter: lane read out of bounds'')
      | Some False \<Rightarrow> Inr c
      | Some True \<Rightarrow>
          (case mapE (rv_lane c k) x of
             Inl e \<Rightarrow> Inl e
           | Inr vs \<Rightarrow>
               (let val = sort_key fst (zip vs [1..<length x + 1])
                in foldE (\<lambda>i c'.
                            (case rv_set (y ! i) k (fst (val ! i)) c' of
                               Inl e \<Rightarrow> Inl e
                             | Inr c'' \<Rightarrow> rv_set (p ! i) k (real (snd (val ! i))) c''))
                         [0..<length x] c)))"

definition visit_SortNode ::
  "ASTNode option \<Rightarrow> ASTNode option \<Rightarrow> ASTNode option \<Rightarrow> ASTRunner \<Rightarrow> error + ASTRunner" where
  "visit_SortNode arg0 arg1 arg2 s =
     (let c = runner_context s in
      (case collect ''x'' arg0 c of Inl e \<Rightarrow> Inl e | Inr x \<Rightarrow>
      (case collect ''y'' arg1 c of Inl e \<Rightarrow> Inl e | Inr y0 \<Rightarrow>
      (case collect ''p'' arg2 c of Inl e \<Rightarrow> Inl e | Inr p \<Rightarrow>
      (let y = (if y0 = [] then x else y0) in
       if \<not> length x \<ge> 1 then Inl (Error ''array size must be >= 1'')
       else if length y \<noteq> length x then Inl (Error ''y array size must match x array size'')
       else if \<not> (p = [] \<or> length p = length x)
       then Inl (Error ''p array size must match x array size'')
       else
         (case checkSizes c x y p (p \<noteq> []) of Inl e \<Rightarrow> Inl e | Inr u \<Rightarrow>
         (case filter_top s of Inl e \<Rightarrow> Inl e | Inr flt \<Rightarrow>
         (case rv_size c (x ! 0) of Inl e \<Rightarrow> Inl e | Inr n \<Rightarrow>
            if f_size flt \<noteq> n then Inl (Error ''filter has size different from x[0]'')
            else
              (case (if p = [] then foldE (sortLane flt x y) [0..<n] c
                     else foldE (sortLaneP flt x y p) [0..<n] c) of
                 Inl e \<Rightarrow> Inl e
               | Inr c' \<Rightarrow> Inr (s\<lparr>runner_context := c'\<rparr>))))))))))"

text \<open>\<^verbatim>\<open>visit(PermuteNode&)\<close>, with one pass of its loop over the lanes.\<close>

definition permuteLane ::
  "Filter \<Rightarrow> Loc list \<Rightarrow> Loc list \<Rightarrow> Loc list \<Rightarrow> nat \<Rightarrow> Context \<Rightarrow> error + Context" where
  "permuteLane flt x y p k c =
     (case f_at flt k of
        None \<Rightarrow> Inl (OutOfRange ''Filter: lane read out of bounds'')
      | Some False \<Rightarrow> Inr c
      | Some True \<Rightarrow>
          (case mapE (\<lambda>i.
                        (case rv_lane c k (p ! i) of
                           Inl e \<Rightarrow> Inl e
                         | Inr pv \<Rightarrow>
                             (let permutedIndex = lround pv
                              in if \<not> (permutedIndex \<ge> 1 \<and> permutedIndex \<le> int (length x))
                                 then Inl (Error ''permuted index out of bounds'')
                                 else rv_lane c k (x ! nat (permutedIndex - 1)))))
                     [0..<length x] of
             Inl e \<Rightarrow> Inl e
           | Inr val \<Rightarrow> foldE (\<lambda>i c'. rv_set (y ! i) k (val ! i) c') [0..<length x] c))"

definition visit_PermuteNode ::
  "ASTNode option \<Rightarrow> ASTNode option \<Rightarrow> ASTNode option \<Rightarrow> ASTRunner \<Rightarrow> error + ASTRunner" where
  "visit_PermuteNode arg0 arg1 arg2 s =
     (let c = runner_context s in
      (case collect ''x'' arg0 c of Inl e \<Rightarrow> Inl e | Inr x \<Rightarrow>
      (case collect ''y'' arg1 c of Inl e \<Rightarrow> Inl e | Inr y0 \<Rightarrow>
      (case collect ''p'' arg2 c of Inl e \<Rightarrow> Inl e | Inr p0 \<Rightarrow>
      (let p = (if p0 = [] then y0 else p0);
           y = (if p0 = [] then x else y0)
       in
       if length y \<noteq> length x then Inl (Error ''y array size must match x array size'')
       else if length p \<noteq> length x then Inl (Error ''p array size must match x array size'')
       else if \<not> length x \<ge> 1 then Inl (Error ''array size must be >= 1'')
       else
         (case checkSizes c x y p True of Inl e \<Rightarrow> Inl e | Inr u \<Rightarrow>
         (case filter_top s of Inl e \<Rightarrow> Inl e | Inr flt \<Rightarrow>
         (case rv_size c (x ! 0) of Inl e \<Rightarrow> Inl e | Inr n \<Rightarrow>
            if f_size flt \<noteq> n then Inl (Error ''filter has size different from x[0]'')
            else
              (case foldE (permuteLane flt x y p) [0..<n] c of
                 Inl e \<Rightarrow> Inl e
               | Inr c' \<Rightarrow> Inr (s\<lparr>runner_context := c'\<rparr>))))))))))"

section \<open>Scripted payoff engine: the visitor\<close>

text \<open>The targets of an assignment that go through \<^verbatim>\<open>typeSafeAssign\<close>.\<close>

fun isEventCurrencyIndex :: "ValueType \<Rightarrow> bool" where
  "isEventCurrencyIndex (Event d) = True"
| "isEventCurrencyIndex (Currency c) = True"
| "isEventCurrencyIndex (Index i) = True"
| "isEventCurrencyIndex v = False"

text \<open>\<^verbatim>\<open>paylog_->write(...)\<close> appends one entry to the log.\<close>

definition PayLog_write :: "PayLogEntry \<Rightarrow> ASTRunner \<Rightarrow> ASTRunner" where
  "PayLog_write entry s = s\<lparr>paylog := map_option (\<lambda>entries. entries @ [entry]) (paylog s)\<rparr>"

text \<open>
  \<^verbatim>\<open>ASTRunner\<close>: \<open>visit\<close> is \<^verbatim>\<open>accept\<close> on a node, one equation for each \<^verbatim>\<open>visit\<close> method;
  \<open>visit_sequence\<close> is the loop of \<^verbatim>\<open>visit(SequenceNode&)\<close>, \<open>visit_loop\<close> the \<^verbatim>\<open>while\<close>
  loop of \<^verbatim>\<open>visit(LoopNode&)\<close> from the current value \<open>cl\<close> on, \<open>declareVariables\<close> the loop
  of \<^verbatim>\<open>visit(DeclarationNumberNode&)\<close>.  The caches of a \<^verbatim>\<open>VariableNode\<close> hold what the
  lookup in the context returns (names are never removed from the context), so the lookup
  is done each time.  \<^verbatim>\<open>checkpoint\<close> and \<^verbatim>\<open>TRACE\<close> serve diagnostics and are left out; so is
  the \<^verbatim>\<open>QL_REQUIRE(slot >= 0, ...)\<close> of \<^verbatim>\<open>payHelper\<close>, which tests a variable that is
  zero at that point.  The bounds \<^verbatim>\<open>al\<close>, \<^verbatim>\<open>bl\<close>, the step \<^verbatim>\<open>sl\<close> and the counter \<^verbatim>\<open>cl\<close> of
  \<^verbatim>\<open>visit(LoopNode&)\<close> are \<^verbatim>\<open>long\<close>s: the loop is entered only if the three rounded
  values fit a \<^verbatim>\<open>long\<close>, and \<^verbatim>\<open>cl += sl\<close> is carried out only if the sum does; otherwise
  the result is \<open>OutOfRange\<close>.
\<close>

text \<open>
  The measure of the recursion: the size of the syntax that a call still has to walk and,
  for the loop, the number of values of \<open>cl\<close> that are left before the bound.
\<close>

fun visit_measure where
  "visit_measure (Inl (Inl (env, n, s))) = (2 * size n + 1, 0::nat)"
| "visit_measure (Inl (Inr (Inl (env, args, s)))) = (2 * size_list size args + 1, 0)"
| "visit_measure (Inl (Inr (Inr (env, name, body, cl, bl, sl, s)))) =
     (2 * size body + 2, if (sl::int) > 0 then nat (bl - cl + 1) else nat (cl - bl + 1))"
| "visit_measure (Inr (Inl (Inl (env, name, sub, s)))) = (2 * size_option size sub, 0)"
| "visit_measure (Inr (Inl (Inr (env, arg, val, s)))) = (2 * size arg + 1, 0)"
| "visit_measure (Inr (Inr (Inl (env, args, val, s)))) = (2 * size_list size args + 1, 0)"
| "visit_measure (Inr (Inr (Inr (env, a0, a1, a2, a3, a4, a5, a6, logging, s)))) =
     (2 * (size a0 + size a1 + size a2 + size a3
           + (case a4 of None \<Rightarrow> 0 | Some e \<Rightarrow> size e)
           + (case a5 of None \<Rightarrow> 0 | Some e \<Rightarrow> size e)
           + (case a6 of None \<Rightarrow> 0 | Some e \<Rightarrow> size e)) + 2, 0)"

function
  visit :: "Env \<Rightarrow> ASTNode \<Rightarrow> ASTRunner \<Rightarrow> error + ASTRunner" and
  visit_sequence :: "Env \<Rightarrow> ASTNode list \<Rightarrow> ASTRunner \<Rightarrow> error + ASTRunner" and
  visit_loop ::
    "Env \<Rightarrow> string \<Rightarrow> ASTNode \<Rightarrow> int \<Rightarrow> int \<Rightarrow> int \<Rightarrow> ASTRunner \<Rightarrow> error + ASTRunner" and
  getVariableRef ::
    "Env \<Rightarrow> string \<Rightarrow> ASTNode option \<Rightarrow> ASTRunner \<Rightarrow> error + VarRef \<times> ASTRunner" and
  declareVariable :: "Env \<Rightarrow> ASTNode \<Rightarrow> ValueType \<Rightarrow> ASTRunner \<Rightarrow> error + ASTRunner" and
  declareVariables ::
    "Env \<Rightarrow> ASTNode list \<Rightarrow> ValueType \<Rightarrow> ASTRunner \<Rightarrow> error + ASTRunner" and
  payHelper ::
    "Env \<Rightarrow> ASTNode \<Rightarrow> ASTNode \<Rightarrow> ASTNode \<Rightarrow> ASTNode
       \<Rightarrow> ASTNode option \<Rightarrow> ASTNode option \<Rightarrow> ASTNode option \<Rightarrow> bool
       \<Rightarrow> ASTRunner \<Rightarrow> error + ASTRunner"
where
  "visit env (BinaryNode op a b) s =
     (case visit env a s of Inl e \<Rightarrow> Inl e | Inr s1 \<Rightarrow>
      (case visit env b s1 of Inl e \<Rightarrow> Inl e | Inr s2 \<Rightarrow>
       (case pop s2 of Inl e \<Rightarrow> Inl e | Inr (right, s3) \<Rightarrow>
        (case pop s3 of Inl e \<Rightarrow> Inl e | Inr (left, s4) \<Rightarrow>
         (case binaryValueOp env op left right of Inl e \<Rightarrow> Inl e | Inr v \<Rightarrow>
          Inr (push v s4))))))"
| "visit env (UnaryNode op a) s =
     (case visit env a s of Inl e \<Rightarrow> Inl e | Inr s1 \<Rightarrow>
      (case pop s1 of Inl e \<Rightarrow> Inl e | Inr (arg, s2) \<Rightarrow>
       (case unaryValueOp env op arg of Inl e \<Rightarrow> Inl e | Inr v \<Rightarrow>
        Inr (push v s2))))"
| "visit env (ConditionAndNode a b) s =
     (case visit env a s of Inl e \<Rightarrow> Inl e | Inr s1 \<Rightarrow>
      (case pop s1 of Inl e \<Rightarrow> Inl e | Inr (left, s2) \<Rightarrow>
       (case left of
        Filter l \<Rightarrow>
        (if f_deterministic l \<and> f_at l 0 = Some False
         then Inr (push (Filter (FilterDet (f_size l) False)) s2)
         else (case visit env b s2 of Inl e \<Rightarrow> Inl e | Inr s3 \<Rightarrow>
          (case pop s3 of Inl e \<Rightarrow> Inl e | Inr (right, s4) \<Rightarrow>
           (case logicalAnd left right of Inl e \<Rightarrow> Inl e | Inr v \<Rightarrow>
            Inr (push v s4)))))
        | other \<Rightarrow> Inl (Error ''expected condition''))))"
| "visit env (ConditionOrNode a b) s =
     (case visit env a s of Inl e \<Rightarrow> Inl e | Inr s1 \<Rightarrow>
      (case pop s1 of Inl e \<Rightarrow> Inl e | Inr (left, s2) \<Rightarrow>
       (case left of
        Filter l \<Rightarrow>
        (if f_deterministic l \<and> f_at l 0 = Some True
         then Inr (push (Filter (FilterDet (f_size l) True)) s2)
         else (case visit env b s2 of Inl e \<Rightarrow> Inl e | Inr s3 \<Rightarrow>
          (case pop s3 of Inl e \<Rightarrow> Inl e | Inr (right, s4) \<Rightarrow>
           (case logicalOr left right of Inl e \<Rightarrow> Inl e | Inr v \<Rightarrow>
            Inr (push v s4)))))
        | other \<Rightarrow> Inl (Error ''expected condition''))))"
| "visit env (ConstantNumberNode x) s =
     Inr (push (Number (RVDet (sizeN env) x)) s)"
| "visit env (VariableNode name sub) s =
     (case getVariableRef env name sub s of Inl e \<Rightarrow> Inl e | Inr (r, s1) \<Rightarrow>
      (case deref (runner_context s1) r of Inl e \<Rightarrow> Inl e | Inr v \<Rightarrow>
       Inr (push v s1)))"
| "visit env (DeclarationNumberNode args) s =
     declareVariables env args (Number (RVDet (sizeN env) 0)) s"
| "visit env (SizeOpNode name) s =
     (case arrays (runner_context s) name of
      None \<Rightarrow>
      (case scalars (runner_context s) name of
       None \<Rightarrow> Inl (Error ''variable is not defined'')
       | Some v \<Rightarrow> Inl (Error ''SIZE can only be applied to array''))
      | Some vec \<Rightarrow> Inr (push (Number (RVDet (sizeN env) (real (length vec)))) s))"
| "visit env (AssignmentNode lhs rhs) s =
     (case visit env rhs s of Inl e \<Rightarrow> Inl e | Inr s1 \<Rightarrow>
      (case pop s1 of Inl e \<Rightarrow> Inl e | Inr (right, s2) \<Rightarrow>
       (case lhs of
        VariableNode name sub \<Rightarrow>
        (if name \<in> ignoreAssignments (runner_context s2) then Inr s2
         else if name \<in> constants (runner_context s2)
         then Inl (Error ''can not assign to const variable'')
         else (case getVariableRef env name sub s2 of Inl e \<Rightarrow> Inl e | Inr (r, s3) \<Rightarrow>
          (case deref (runner_context s3) r of Inl e \<Rightarrow> Inl e | Inr cur \<Rightarrow>
           (if isEventCurrencyIndex cur
            then (case typeSafeAssign env cur right of Inl e \<Rightarrow> Inl e | Inr v \<Rightarrow>
             Inr (s3\<lparr>runner_context := assign_ref (runner_context s3) r v\<rparr>))
            else (case cur of
             Number curRV \<Rightarrow>
             (case right of
              Number rightRV \<Rightarrow>
              (case filter_top s3 of Inl e \<Rightarrow> Inl e | Inr m \<Rightarrow>
               (case conditionalResult m rightRV curRV of Inl e \<Rightarrow> Inl e | Inr res \<Rightarrow>
                Inr (s3\<lparr>runner_context := assign_ref (runner_context s3) r (Number (r_updateDeterministic res))\<rparr>)))
              | other \<Rightarrow> Inl (Error ''invalid assignment''))
             | other \<Rightarrow> Inl (Error ''internal error: expected NUMBER''))))))
        | other \<Rightarrow> Inl (Error ''expected variable identifier on LHS of assignment''))))"
| "visit env (RequireNode a) s =
     (case visit env a s of Inl e \<Rightarrow> Inl e | Inr s1 \<Rightarrow>
      (case pop s1 of Inl e \<Rightarrow> Inl e | Inr (condition, s2) \<Rightarrow>
       (case condition of
        Filter cond \<Rightarrow>
        (case filter_top s2 of Inl e \<Rightarrow> Inl e | Inr m \<Rightarrow>
         (case f_or (f_not m) cond of Inl e \<Rightarrow> Inl e | Inr c \<Rightarrow>
          (if f_deterministic (f_updateDeterministic c) \<and> f_at (f_updateDeterministic c) 0 = Some True
           then Inr s2
           else Inl (Error ''required condition is not (always) fulfilled''))))
        | other \<Rightarrow> Inl (Error ''expected condition''))))"
| "visit env (SequenceNode args) s =
     visit_sequence env args s"
| "visit env (IfThenElseNode c t els) s =
     (case visit env c s of Inl e \<Rightarrow> Inl e | Inr s1 \<Rightarrow>
      (case pop s1 of Inl e \<Rightarrow> Inl e | Inr (if_v, s2) \<Rightarrow>
       (case if_v of
        Filter cond \<Rightarrow>
        (case filter_top s2 of Inl e \<Rightarrow> Inl e | Inr baseFilter \<Rightarrow>
         (case f_and baseFilter cond of Inl e \<Rightarrow> Inl e | Inr cf1 \<Rightarrow>
          (case (if \<not> f_deterministic (f_updateDeterministic cf1) \<or> f_at (f_updateDeterministic cf1) 0 = Some True
            then visit env t (filter_push (f_updateDeterministic cf1) s2)
            else Inr (filter_push (f_updateDeterministic cf1) s2)) of Inl e \<Rightarrow> Inl e | Inr s4 \<Rightarrow>
           (case filter_pop s4 of Inl e \<Rightarrow> Inl e | Inr s5 \<Rightarrow>
            (case els of
             None \<Rightarrow> Inr s5
             | Some el \<Rightarrow>
             (case f_and baseFilter (f_not cond) of Inl e \<Rightarrow> Inl e | Inr cf2 \<Rightarrow>
              (case (if \<not> f_deterministic (f_updateDeterministic cf2) \<or> f_at (f_updateDeterministic cf2) 0 = Some True
                then visit env el (filter_push (f_updateDeterministic cf2) s5)
                else Inr (filter_push (f_updateDeterministic cf2) s5)) of Inl e \<Rightarrow> Inl e | Inr s7 \<Rightarrow>
               filter_pop s7)))))))
        | other \<Rightarrow> Inl (Error ''IF must be followed by a boolean''))))"
| "visit env (LoopNode name a0 a1 a2 body) s =
     (case scalars (runner_context s) name of
      None \<Rightarrow> Inl (Error ''loop variable not defined or not scalar'')
      | Some var \<Rightarrow>
      (if name \<in> constants (runner_context s) then Inl (Error ''loop variable is constant'')
       else (case visit env a0 s of Inl e \<Rightarrow> Inl e | Inr s1 \<Rightarrow>
        (case visit env a1 s1 of Inl e \<Rightarrow> Inl e | Inr s2 \<Rightarrow>
         (case visit env a2 s2 of Inl e \<Rightarrow> Inl e | Inr s3 \<Rightarrow>
          (case pop s3 of Inl e \<Rightarrow> Inl e | Inr (step, s4) \<Rightarrow>
           (case pop s4 of Inl e \<Rightarrow> Inl e | Inr (right, s5) \<Rightarrow>
            (case pop s5 of Inl e \<Rightarrow> Inl e | Inr (left, s6) \<Rightarrow>
             (case left of
              Number a \<Rightarrow>
              (case right of
               Number b \<Rightarrow>
               (case step of
                Number st \<Rightarrow>
                (case a of
                 RVGen av \<Rightarrow> Inl (Error ''first loop bound must be deterministic'')
                 | RVDet na al \<Rightarrow>
                 (case b of
                  RVGen bv \<Rightarrow> Inl (Error ''second loop bound must be deterministic'')
                  | RVDet nb bl \<Rightarrow>
                  (case st of
                   RVGen sv \<Rightarrow> Inl (Error ''loop step must be deterministic'')
                   | RVDet ns sl \<Rightarrow>
                   (if \<not> (in_long (lround al) \<and> in_long (lround bl) \<and> in_long (lround sl))
                    then Inl (OutOfRange ''lround: the result does not fit a long'')
                    else if lround sl = 0 then Inl (Error ''loop step must be non-zero'')
                    else visit_loop env name body (lround al) (lround bl) (lround sl) s6))))
                | other \<Rightarrow> Inl (Error ''loop bounds and step must be of type NUMBER''))
               | other \<Rightarrow> Inl (Error ''loop bounds and step must be of type NUMBER''))
              | other \<Rightarrow> Inl (Error ''loop bounds and step must be of type NUMBER''))))))))))"
| "visit env (FunctionPayNode a0 a1 a2 a3) s =
     payHelper env a0 a1 a2 a3 None None None False s"
| "visit env (FunctionLogPayNode a0 a1 a2 a3 a4 a5 a6) s =
     payHelper env a0 a1 a2 a3 a4 a5 a6 True s"
| "visit env (SortNode x y p) s =
     visit_SortNode x y p s"
| "visit env (PermuteNode x y p) s =
     visit_PermuteNode x y p s"
| "visit env UnhandledNode s =
     Inl (Error ''unhandled node'')"
| "visit_sequence env [] s =
     Inr s"
| "visit_sequence env (arg # args) s =
     (case visit env arg s of Inl e \<Rightarrow> Inl e | Inr s1 \<Rightarrow>
      visit_sequence env args s1)"
| "visit_loop env name body cl bl sl s =
     (if (sl > 0 \<and> cl \<le> bl) \<or> (sl < 0 \<and> cl \<ge> bl)
      then (case visit env body (s\<lparr>runner_context := (runner_context s)\<lparr>scalars := (scalars (runner_context s))(name \<mapsto> Number (RVDet (sizeN env) (real_of_int cl)))\<rparr>\<rparr>) of Inl e \<Rightarrow> Inl e | Inr s2 \<Rightarrow>
       (case scalars (runner_context s2) name of
        Some (Number v) \<Rightarrow>
        (if close_enough_all v (RVDet (sizeN env) (real_of_int cl))
         then (if in_long (cl + sl) then visit_loop env name body (cl + sl) bl sl s2
          else Inl (OutOfRange ''signed overflow of the loop counter''))
         else Inl (Error ''loop variable was modified in body, this is illegal.''))
        | other \<Rightarrow> Inl (Error ''loop variable was modified in body, this is illegal.'')))
      else Inr s)"
| "getVariableRef env name sub s =
     (case scalars (runner_context s) name of
      Some scalar \<Rightarrow>
      (if sub \<noteq> None then Inl (Error ''no array subscript allowed for variable'') else Inr (ScalarRef name, s))
      | None \<Rightarrow>
      (case arrays (runner_context s) name of
       None \<Rightarrow> Inl (Error ''variable is not defined.'')
       | Some array \<Rightarrow>
       (case sub of
        None \<Rightarrow> Inl (Error ''array subscript required for variable'')
        | Some subscript \<Rightarrow>
        (case visit env subscript s of Inl e \<Rightarrow> Inl e | Inr s1 \<Rightarrow>
         (case pop s1 of Inl e \<Rightarrow> Inl e | Inr (arg, s2) \<Rightarrow>
          (case arg of
           Number i \<Rightarrow>
           (case i of
            RVGen iv \<Rightarrow> Inl (Error ''array subscript must be deterministic'')
            | RVDet ni ival \<Rightarrow>
            (case arrays (runner_context s2) name of
             None \<Rightarrow> Inl (OutOfRange ''dangling reference'')
             | Some cachedVector \<Rightarrow>
             (if \<not> (int (length cachedVector) \<ge> lround ival \<and> lround ival \<ge> 1)
              then Inl (Error ''array index out of bounds'')
              else Inr (ArrayRef name (nat (lround ival - 1)), s2))))
           | other \<Rightarrow> Inl (Error ''array subscript must be of type NUMBER'')))))))"
| "declareVariable env arg val s =
     (case arg of
      VariableNode name sub \<Rightarrow>
      (if name \<in> ignoreAssignments (runner_context s) then Inr s
       else if \<not> (scalars (runner_context s) name = None \<and> arrays (runner_context s) name = None)
       then Inl (Error ''variable already declared.'')
       else (case sub of
        None \<Rightarrow> Inr (s\<lparr>runner_context := (runner_context s)\<lparr>scalars := (scalars (runner_context s))(name \<mapsto> val)\<rparr>\<rparr>)
        | Some sizeExpr \<Rightarrow>
        (case visit env sizeExpr s of Inl e \<Rightarrow> Inl e | Inr s1 \<Rightarrow>
         (case pop s1 of Inl e \<Rightarrow> Inl e | Inr (sizeV, s2) \<Rightarrow>
          (case sizeV of
           Number arraySize \<Rightarrow>
           (case arraySize of
            RVGen sv \<Rightarrow> Inl (Error ''array size definition requires deterministic argument'')
            | RVDet ns sval \<Rightarrow>
            (if \<not> lround sval \<ge> 0 then Inl (Error ''expected non-negative array size'')
             else Inr (s2\<lparr>runner_context := (runner_context s2)\<lparr>arrays := (arrays (runner_context s2))(name \<mapsto> replicate (nat (lround sval)) val)\<rparr>\<rparr>)))
           | other \<Rightarrow> Inl (Error ''expected NUMBER for array size definition''))))))
      | other \<Rightarrow> Inl (Error ''invalid declaration''))"
| "declareVariables env [] val s =
     Inr s"
| "declareVariables env (arg # args) val s =
     (case declareVariable env arg val s of Inl e \<Rightarrow> Inl e | Inr s1 \<Rightarrow>
      declareVariables env args val s1)"
| "payHelper env a0 a1 a2 a3 a4 a5 a6 logging s =
     (case visit env a2 s of Inl e \<Rightarrow> Inl e | Inr s1 \<Rightarrow>
      (case pop s1 of Inl e \<Rightarrow> Inl e | Inr (paydate, s2) \<Rightarrow>
       (case paydate of
        Event pay \<Rightarrow>
        (case model env of
         None \<Rightarrow> Inl (Error ''model is null'')
         | Some m \<Rightarrow>
         (if pay \<le> referenceDate m \<and> \<not> logging
          then Inr (push (Number (RVDet (sizeN env) 0)) s2)
          else (case visit env a0 s2 of Inl e \<Rightarrow> Inl e | Inr s3 \<Rightarrow>
           (case visit env a1 s3 of Inl e \<Rightarrow> Inl e | Inr s4 \<Rightarrow>
            (case visit env a3 s4 of Inl e \<Rightarrow> Inl e | Inr s5 \<Rightarrow>
             (case pop s5 of Inl e \<Rightarrow> Inl e | Inr (paycurr, s6) \<Rightarrow>
              (case pop s6 of Inl e \<Rightarrow> Inl e | Inr (obsdate, s7) \<Rightarrow>
               (case pop s7 of Inl e \<Rightarrow> Inl e | Inr (amount, s8) \<Rightarrow>
                (case amount of
                 Number amt \<Rightarrow>
                 (case obsdate of
                  Event obs \<Rightarrow>
                  (case paycurr of
                   Currency pccy \<Rightarrow>
                   (if \<not> obs \<le> pay then Inl (Error ''observation date <= payment date required'')
                    else (case (if pay \<le> referenceDate m then Inr (RVDet (sizeM m) 0) else payM m amt obs pay pccy) of Inl e \<Rightarrow> Inl e | Inr result \<Rightarrow>
                     (case paylog s8 of
                      None \<Rightarrow> Inr (push (Number result) s8)
                      | Some entries \<Rightarrow>
                      (if \<not> logging then Inr (push (Number result) s8)
                       else (case a4 of
                        None \<Rightarrow> (case filter_top s8 of Inl e \<Rightarrow> Inl e | Inr flt \<Rightarrow>
                         Inr (push (Number result)
                          (PayLog_write
                           \<lparr>pl_amount = (if pay \<le> referenceDate m then amt else result), pl_filter = flt,
                           pl_obs = obs, pl_pay = pay, pl_ccy = pccy, pl_legNo = 0,
                           pl_cashflowType = ''Unspecified'', pl_slot = 0\<rparr> s8)))
                        | Some e4 \<Rightarrow>
                        (case visit env e4 s8 of Inl e \<Rightarrow> Inl e | Inr s_a4 \<Rightarrow>
                         (case pop s_a4 of Inl e \<Rightarrow> Inl e | Inr (sv4, s_b4) \<Rightarrow>
                          (case sv4 of
                           Number svr4 \<Rightarrow>
                           (case r_updateDeterministic svr4 of
                            RVGen svl4 \<Rightarrow> Inl (Error ''legno must be deterministic'')
                            | RVDet svn4 legnoV \<Rightarrow>
                            (case a5 of
                             None \<Rightarrow> Inl (Error ''expected cashflow type argument when legno is given'')
                             | Some (VariableNode cftype cfsub) \<Rightarrow>
                             (if cfsub \<noteq> None then Inl (Error ''cashflow type must not be indexed'')
                              else (case a6 of
                               None \<Rightarrow> (case filter_top s_b4 of Inl e \<Rightarrow> Inl e | Inr flt \<Rightarrow>
                                Inr (push (Number result)
                                 (PayLog_write
                                  \<lparr>pl_amount = (if pay \<le> referenceDate m then amt else result), pl_filter = flt,
                                  pl_obs = obs, pl_pay = pay, pl_ccy = pccy, pl_legNo = lround legnoV,
                                  pl_cashflowType = cftype, pl_slot = 0\<rparr> s_b4)))
                               | Some e6 \<Rightarrow>
                               (case visit env e6 s_b4 of Inl e \<Rightarrow> Inl e | Inr s_a6 \<Rightarrow>
                                (case pop s_a6 of Inl e \<Rightarrow> Inl e | Inr (sv6, s_b6) \<Rightarrow>
                                 (case sv6 of
                                  Number svr6 \<Rightarrow>
                                  (case r_updateDeterministic svr6 of
                                   RVGen svl6 \<Rightarrow> Inl (Error ''slot must be deterministic'')
                                   | RVDet svn6 slotV \<Rightarrow>
                                   (if \<not> lround slotV \<ge> 1 then Inl (Error '' slot must be >= 1'')
                                    else (case filter_top s_b6 of Inl e \<Rightarrow> Inl e | Inr flt \<Rightarrow>
                                     Inr (push (Number result)
                                      (PayLog_write
                                       \<lparr>pl_amount = (if pay \<le> referenceDate m then amt else result), pl_filter = flt,
                                       pl_obs = obs, pl_pay = pay, pl_ccy = pccy, pl_legNo = lround legnoV,
                                       pl_cashflowType = cftype, pl_slot = lround slotV\<rparr> s_b6)))))
                                  | other \<Rightarrow> Inl (Error ''slot must be NUMBER''))))))
                             | Some other \<Rightarrow> Inl (Error ''cashflow type must be a variable name'')))
                           | other \<Rightarrow> Inl (Error ''legno must be NUMBER'')))))))))
                   | other \<Rightarrow> Inl (Error ''paycurr must be CURRENCY''))
                  | other \<Rightarrow> Inl (Error ''obsdate must be EVENT''))
                 | other \<Rightarrow> Inl (Error ''amount must be NUMBER''))))))))))
        | other \<Rightarrow> Inl (Error ''paydate must be EVENT''))))"
  by pat_completeness auto
termination
  by (relation "inv_image (less_than <*lex*> less_than) visit_measure")
     (auto split: option.splits)

section \<open>Scripted payoff engine: ScriptEngine::run\<close>

text \<open>
  The constructor of \<^verbatim>\<open>ASTRunner\<close>: \<^verbatim>\<open>filter.emplace(size_, true)\<close> and
  \<^verbatim>\<open>value.push(RandomVariable())\<close>.  Modelled from the spec: the default-constructed
  \<^verbatim>\<open>RandomVariable()\<close>, the sentinel on the value stack, is a variable without lanes.
\<close>

definition ASTRunner_new :: "Env \<Rightarrow> Context \<Rightarrow> PayLogEntry list option \<Rightarrow> ASTRunner" where
  "ASTRunner_new env c pl =
     \<lparr>filter_stack = [FilterDet (sizeN env) True],
      value_stack = [Number (RVGen [])],
      runner_context = c,
      paylog = pl\<rparr>"

text \<open>
  The \<^verbatim>\<open>catch\<close> block of \<^verbatim>\<open>run\<close> rethrows an exception with the message extended by
  the location in the script.
\<close>

fun scriptError :: "error \<Rightarrow> error" where
  "scriptError (Error what) = Error (''Error during script execution: '' @ what)"
| "scriptError (OutOfRange what) = OutOfRange what"

text \<open>
  \<^verbatim>\<open>ScriptEngine::run\<close> on the syntax tree \<open>root_node\<close> and the context of the engine: the final
  state of the runner when the run succeeds.
\<close>

definition run :: "Env \<Rightarrow> ASTNode \<Rightarrow> Context \<Rightarrow> PayLogEntry list option \<Rightarrow> error + ASTRunner" where
  "run env root_node c pl =
     (case visit env root_node (ASTRunner_new env c pl) of
        Inl e \<Rightarrow> Inl (scriptError e)
      | Inr runner \<Rightarrow>
          if \<not> length (value_stack runner) = 1
          then Inl (scriptError (Error ''ScriptEngine::run(): value stack has wrong size, should be 1''))
          else if \<not> length (filter_stack runner) = 1
          then Inl (scriptError (Error ''ScriptEngine::run(): filter stack has wrong size, should be 1''))
          else Inr runner)"

section \<open>Lanes that a write leaves alone\<close>

text \<open>
  Lane \<open>k\<close> is kept from the context \<open>c\<close> to the context \<open>c'\<close> when every RandomVariable
  that is an element of an array of \<open>c\<close> is still there in \<open>c'\<close>, with the same size and the
  same value on lane \<open>k\<close>.
\<close>

definition lane_kept :: "nat \<Rightarrow> Context \<Rightarrow> Context \<Rightarrow> bool" where
  "lane_kept k c c' =
     (\<forall>l r. rv_at c l = Inr r \<longrightarrow>
        (\<exists>r'. rv_at c' l = Inr r' \<and> r_size r' = r_size r
              \<and> (k < r_size r \<longrightarrow> r_lanes r' ! k = r_lanes r ! k)))"

section \<open>The FOR loop in the words of the specification\<close>

text \<open>
  The specification has the loop ``iterate \<open>cl = a; a..b\<close> stepping by \<open>s\<close> (inclusive)''.
  \<open>spec_loopValues a b s\<close> is that progression written out: \<open>a, a + s, a + 2 s, ...\<close> as
  long as the value has not passed \<open>b\<close>.  It is compared with the \<^verbatim>\<open>while\<close> loop of the
  source below.
\<close>

definition spec_loopValues :: "int \<Rightarrow> int \<Rightarrow> int \<Rightarrow> int list" where
  "spec_loopValues a b s =
     (if s > 0 then map (\<lambda>i. a + int i * s) [0..<nat ((b - a) div s + 1)]
      else if s < 0 then map (\<lambda>i. a + int i * s) [0..<nat ((a - b) div (- s) + 1)]
      else [])"

text \<open>
  One pass, in the words of the specification: ``before each body, set the scalar to
  \<open>RandomVariable(N, cl)\<close>; after each body, verify the loop variable has not been altered
  (otherwise error)''.
\<close>

definition spec_loopPass :: "Env \<Rightarrow> string \<Rightarrow> ASTNode \<Rightarrow> int \<Rightarrow> ASTRunner \<Rightarrow> error + ASTRunner" where
  "spec_loopPass env name body cl s =
     (case visit env body
             (s\<lparr>runner_context := (runner_context s)
                  \<lparr>scalars := (scalars (runner_context s))
                                 (name \<mapsto> Number (RVDet (sizeN env) (real_of_int cl)))\<rparr>\<rparr>) of
        Inl e \<Rightarrow> Inl e
      | Inr s' \<Rightarrow>
          (case scalars (runner_context s') name of
             Some (Number v) \<Rightarrow>
               if r_lanes v = replicate (sizeN env) (real_of_int cl) then Inr s'
               else Inl (Error ''loop variable was modified in body, this is illegal.'')
           | other \<Rightarrow> Inl (Error ''loop variable was modified in body, this is illegal.'')))"

section \<open>Example inputs\<close>

text \<open>
  A model with two samples and reference date \<open>10\<close> whose \<^verbatim>\<open>pay\<close> returns the amount as it
  is, an environment without arithmetic operators, and a context with a few scalars and
  arrays.  The theorems below are instantiated at these inputs.
\<close>

definition example_model :: Model where
  "example_model =
     \<lparr>sizeM = 2, referenceDate = 10,
      payM = (\<lambda>amount obs pay ccy. Inr amount)\<rparr>"

definition example_env :: Env where
  "example_env =
     \<lparr>model = Some example_model,
      binaryValueOp = (\<lambda>op x y. Inl (Error ''operator not available'')),
      unaryValueOp = (\<lambda>op x. Inl (Error ''operator not available'')),
      typeSafeAssign = (\<lambda>x y. Inr y)\<rparr>"

definition example_context :: Context where
  "example_context =
     \<lparr>scalars = [''F'' \<mapsto> Filter (FilterDet 2 False),
                 ''T'' \<mapsto> Filter (FilterDet 2 True),
                 ''M'' \<mapsto> Filter (FilterGen [True, False]),
                 ''x'' \<mapsto> Number (RVDet 2 0),
                 ''i'' \<mapsto> Number (RVDet 2 0),
                 ''Past'' \<mapsto> Event 5,
                 ''Future'' \<mapsto> Event 20,
                 ''Today'' \<mapsto> Event 10,
                 ''USD'' \<mapsto> Currency ''USD''],
      arrays = [''a'' \<mapsto> [Number (RVGen [3, 1]), Number (RVGen [1, 2]), Number (RVGen [2, 3])],
                ''b'' \<mapsto> [Number (RVDet 2 0), Number (RVDet 2 0), Number (RVDet 2 0)],
                ''p'' \<mapsto> [Number (RVGen [2, 7]), Number (RVGen [3, 8]), Number (RVGen [1, 9])]],
      constants = {},
      ignoreAssignments = {}\<rparr>"

definition example_runner :: ASTRunner where
  "example_runner = ASTRunner_new example_env example_context None"

section \<open>Verified properties: exposure allocation\<close>

lemma rfvNetStep_neg_le0:
  assumes "\<And>n. at0 (nettingSetNegativeValueToday A) n \<le> 0"
  shows "at0 (nettingSetNegativeValueToday (rfvNetStep A t)) n \<le> 0"
proof -
  obtain tradeId nettingSetId npv where t: "t = (tradeId, nettingSetId, npv)"
    by (cases t) auto
  have "at0 (nettingSetNegativeValueToday A) n \<le> 0"
       "at0 (nettingSetNegativeValueToday A) nettingSetId \<le> 0"
    using assms by blast+
  then show ?thesis
    unfolding t rfvNetStep_def by (auto simp: at0_def Let_def)
qed

lemma foldl_rfvNetStep_neg_le0:
  "(\<And>n. at0 (nettingSetNegativeValueToday A) n \<le> 0)
   \<Longrightarrow> at0 (nettingSetNegativeValueToday (foldl rfvNetStep A ts)) n \<le> 0"
proof (induction ts arbitrary: A n)
  case Nil
  then show ?case by simp
next
  case (Cons t ts)
  show ?case
    unfolding foldl_Cons
    by (rule Cons.IH) (rule rfvNetStep_neg_le0, rule Cons.prems)
qed

text \<open>
  An instance: one netting set with NPVs today of \<open>10\<close> and \<open>-5\<close> and a netting-set exposure
  of \<open>3\<close>.  The trade with positive value is allocated the whole EPE; the ENE of the trade
  with negative value is not computed, the call throws.
\<close>

lemma rfvNet_example:
  "rfvNet_calculateAllocatedEpe
     (RelativeFairValueNetExposureAllocator_new (\<lambda>nid date sample idx. 3) 0 1
        [(''T1'', ''NS'', 10), (''T2'', ''NS'', - 5)]) ''T1'' ''NS'' 0 0
   = Inr (Value 3)
   \<and> rfvNet_calculateAllocatedEne
     (RelativeFairValueNetExposureAllocator_new (\<lambda>nid date sample idx. 3) 0 1
        [(''T1'', ''NS'', 10), (''T2'', ''NS'', - 5)]) ''T2'' ''NS'' 0 0
   = Inl (Error ''non-zero negative NPV expected'')"
  by (simp add: rfvNet_calculateAllocatedEne_def rfvNet_calculateAllocatedEpe_def
      RelativeFairValueNetExposureAllocator_new_def rfvNetStep_def at0_def fdiv_def)

text \<open>
  C6 (RelativeFairValueNet).  The claim has the allocated ENE distributed over the trades
  with negative NPV today, in proportion to their share of the summed negative NPV of the
  netting set.  In the code the sum of the negative NPVs is never positive, and
  \<^verbatim>\<open>calculateAllocatedEne\<close> requires it to be positive: whatever the portfolio, the trade,
  the netting set, the date and the sample, the call throws ``non-zero negative NPV
  expected'' and no ENE is allocated.
\<close>

theorem rfvNet_calculateAllocatedEne_always_rejects:
  "rfvNet_calculateAllocatedEne
     (RelativeFairValueNetExposureAllocator_new c epeIdx eneIdx trades) tid nid date sample
   = Inl (Error ''non-zero negative NPV expected'')"
proof -
  have "at0 (nettingSetNegativeValueToday
               (RelativeFairValueNetExposureAllocator_new c epeIdx eneIdx trades)) nid \<le> 0"
    unfolding RelativeFairValueNetExposureAllocator_new_def
    by (rule foldl_rfvNetStep_neg_le0) (simp add: at0_def)
  then show ?thesis
    by (simp add: rfvNet_calculateAllocatedEne_def)
qed

text \<open>
  What the three allocators that divide by an aggregate do about their denominator.
  RelativeFairValueGross (EPE and ENE) throws when the netting-set value today is zero and
  otherwise returns the proper quotient; RelativeFairValueNet's EPE throws unless the summed
  positive NPV is positive and otherwise returns the proper quotient; RelativeXVA never
  throws: it returns the outcome of the unguarded division.
\<close>

lemma allocator_denominator_checks:
  "rfvGross_calculateAllocatedEpe G tid nid date sample =
     (if at0 (nettingSetValueToday G) nid = 0
      then Inl (Error ''non-zero netting set value expected'')
      else Inr (Value (nettedExposureCube G nid date sample (nettingSetEpeIndex G)
                         * at0 (g_tradeValueToday G) tid / at0 (nettingSetValueToday G) nid)))
   \<and> rfvGross_calculateAllocatedEne G tid nid date sample =
     (if at0 (nettingSetValueToday G) nid = 0
      then Inl (Error ''non-zero netting set value expected'')
      else Inr (Value (nettedExposureCube G nid date sample (nettingSetEneIndex G)
                         * at0 (g_tradeValueToday G) tid / at0 (nettingSetValueToday G) nid)))
   \<and> rfvNet_calculateAllocatedEpe A tid nid date sample =
     (if at0 (nettingSetPositiveValueToday A) nid \<le> 0
      then Inl (Error ''non-zero positive NPV expected'')
      else Inr (Value (nettedExposureCube A nid date sample (nettingSetEpeIndex A)
                         * max (at0 (tradeValueToday A) tid) 0
                         / at0 (nettingSetPositiveValueToday A) nid)))
   \<and> rxva_calculateAllocatedEpe X tid nid date sample =
       Inr (fdiv (nettedExposureCube X nid date sample (nettingSetEpeIndex X)
                    * at0 (tradeCva X) tid) (at0 (nettingSetSumCva X) nid))
   \<and> rxva_calculateAllocatedEne X tid nid date sample =
       Inr (fdiv (nettedExposureCube X nid date sample (nettingSetEneIndex X)
                    * at0 (tradeDva X) tid) (at0 (nettingSetSumDva X) nid))"
  by (simp add: rfvGross_calculateAllocatedEpe_def rfvGross_calculateAllocatedEne_def
      rfvNet_calculateAllocatedEpe_def rxva_calculateAllocatedEpe_def
      rxva_calculateAllocatedEne_def fdiv_def Let_def)

text \<open>
  C7.  The claim has a zero denominator caught by a precondition check in every allocation
  method that divides by a portfolio aggregate.  The RelativeXVA allocator has no such
  check: for a netting set whose trades all have a stand-alone CVA and DVA of zero, the sums
  are zero and the allocated EPE and ENE of a trade are NaN, returned without an error;
  the RelativeFairValueGross allocator, at a netting-set value of zero, throws.
\<close>

theorem rxva_zero_denominator_unchecked:
  "rxva_calculateAllocatedEpe
     \<lparr>nettedExposureCube = (\<lambda>nid date sample idx. 1), nettingSetEpeIndex = 0,
      nettingSetEneIndex = 1, tradeCva = [''T1'' \<mapsto> 0], tradeDva = [''T1'' \<mapsto> 0],
      nettingSetSumCva = [''NS'' \<mapsto> 0], nettingSetSumDva = [''NS'' \<mapsto> 0]\<rparr>
     ''T1'' ''NS'' 0 0 = Inr NaN
   \<and> rxva_calculateAllocatedEne
     \<lparr>nettedExposureCube = (\<lambda>nid date sample idx. 1), nettingSetEpeIndex = 0,
      nettingSetEneIndex = 1, tradeCva = [''T1'' \<mapsto> 0], tradeDva = [''T1'' \<mapsto> 0],
      nettingSetSumCva = [''NS'' \<mapsto> 0], nettingSetSumDva = [''NS'' \<mapsto> 0]\<rparr>
     ''T1'' ''NS'' 0 0 = Inr NaN
   \<and> rfvGross_calculateAllocatedEpe
     (RelativeFairValueGrossExposureAllocator_new (\<lambda>nid date sample idx. 1) 0 1
        [(''T1'', ''NS'', 4), (''T2'', ''NS'', - 4)])
     ''T1'' ''NS'' 0 0 = Inl (Error ''non-zero netting set value expected'')"
  by (simp add: rxva_calculateAllocatedEpe_def rxva_calculateAllocatedEne_def
      rfvGross_calculateAllocatedEpe_def RelativeFairValueGrossExposureAllocator_new_def
      rfvGrossStep_def fdiv_def at0_def)

section \<open>Verified properties: command line application\<close>

lemma run_actions_no_return:
  "(\<And>c. Return c \<notin> set as) \<Longrightarrow> snd (run_actions as out) \<noteq> Returned c"
  by (induction as out rule: run_actions.induct) auto

lemma gated_no_return:
  "(\<And>c. Return c \<notin> set on) \<Longrightarrow> (\<And>c. Return c \<notin> set off)
   \<Longrightarrow> Return c \<notin> set (gated p g on off)"
  by (auto simp: gated_def split: sum.splits)

text \<open>
  C8, as the claim states it, fails: a run whose first library call throws ends in a failure,
  the error is printed, the run time is reported, and the exit code is \<open>0\<close>.
\<close>

theorem main_failure_exit_code_counterexample:
  "run_actions (try_block [''ore'', ''ore.xml'']
     \<lparr>params = Map.empty, readSetup = Some ''file not found'', loadMarketData = None,
      loadConventions = None, loadCurveConfigurations = None, buildMarket = None,
      buildEngineFactory = None, buildPortfolio = None, writeCurves = None, writeNpv = None,
      writeCashflow = None, simulationSetup = None, aggregationScenarioData = None,
      buildCube = None, saveCube = None, saveScenarioData = None,
      writeXvaReports = None\<rparr>) []
     = ([''ORE starting''], Thrown ''file not found'')
   \<and> main [''ore'', ''ore.xml'']
     \<lparr>params = Map.empty, readSetup = Some ''file not found'', loadMarketData = None,
      loadConventions = None, loadCurveConfigurations = None, buildMarket = None,
      buildEngineFactory = None, buildPortfolio = None, writeCurves = None, writeNpv = None,
      writeCashflow = None, simulationSetup = None, aggregationScenarioData = None,
      buildCube = None, saveCube = None, saveScenarioData = None,
      writeXvaReports = None\<rparr>
     = ([''ORE starting'', ''Error: file not found'', ''run time: '', ''ORE done.''], 0)"
  by (simp add: main_def try_block_def)

text \<open>
  C8, amended.  The exit code depends on the number of arguments alone: it is \<open>0\<close> when the
  program is given exactly one argument, whether the run completes, skips stages, prints the
  version or ends in an exception (which is caught and printed), and \<open>-1\<close> otherwise.
\<close>

theorem main_exit_code:
  "snd (main argv r) = (if length argv = 2 then 0 else - 1)"
proof (cases "length argv = 2")
  case True
  have "Return c \<notin> set (try_block argv r)" for c
    using True by (simp add: try_block_def gated_no_return)
  then have "snd (run_actions (try_block argv r) []) \<noteq> Returned c" for c
    by (rule run_actions_no_return)
  then show ?thesis
    using True by (cases "run_actions (try_block argv r) []")
      (auto simp: main_def split: status.splits)
next
  case False
  then show ?thesis
    by (simp add: main_def try_block_def)
qed

text \<open>
  What the process prints when the run ends in an exception: the output so far, the line
  \<^verbatim>\<open>Error: \<close> with the message of the exception, and the run time.
\<close>

lemma main_prints_caught_error:
  assumes "\<not> (length argv = 2 \<and> (argv ! 1 = ''-v'' \<or> argv ! 1 = ''--version''))"
    and "run_actions (try_block argv r) [] = (out, Thrown what)"
  shows "main argv r = (out @ [''Error: '' @ what, ''run time: '', ''ORE done.''], 0)"
  using assms by (simp add: main_def)

section \<open>Verified properties: scripted payoff engine\<close>

text \<open>
  The equation of \<open>visit_loop\<close> unfolds into itself; it is applied by hand.
\<close>

declare visit_loop.simps [simp del]

lemmas example_defs = example_runner_def ASTRunner_new_def example_env_def example_context_def
  example_model_def sizeN_def push_def pop_def filter_top_def filter_push_def filter_pop_def
  deref_def assign_ref_def

lemma f_lanes_length [simp]: "length (f_lanes f) = f_size f"
  by (cases f) auto

lemma f_lanes_updateDeterministic [simp]:
  "f_lanes (f_updateDeterministic f) = f_lanes f"
proof (cases f)
  case (FilterDet n b)
  then show ?thesis by simp
next
  case (FilterGen bs)
  show ?thesis
  proof (cases bs)
    case Nil
    with FilterGen show ?thesis by simp
  next
    case (Cons b cs)
    have "list_all (\<lambda>c. c = b) cs \<Longrightarrow> replicate (length cs) b = cs"
      by (induction cs) auto
    with FilterGen Cons show ?thesis by simp
  qed
qed

lemma f_size_updateDeterministic [simp]:
  "f_size (f_updateDeterministic f) = f_size f"
  using f_lanes_length f_lanes_updateDeterministic by metis

lemma f_lanes_not [simp]: "f_lanes (f_not f) = map Not (f_lanes f)"
  by (cases f) auto

lemma f_size_not [simp]: "f_size (f_not f) = f_size f"
  by (cases f) auto

lemma f_binary_lanes:
  "f_binary op x y = Inr z \<Longrightarrow> f_lanes z = map2 op (f_lanes x) (f_lanes y)"
  by (cases x; cases y) (auto simp: f_binary_def map_replicate_const zip_replicate split: if_splits)

lemma f_binary_size:
  "f_binary op x y = Inr z \<Longrightarrow> f_size z = f_size x \<and> f_size y = f_size x"
  by (cases x; cases y) (auto simp: f_binary_def split: if_splits)

lemma f_binary_ok:
  "f_size x = f_size y \<Longrightarrow> \<exists>z. f_binary op x y = Inr z"
  by (cases x; cases y) (auto simp: f_binary_def)

text \<open>A collapsed filter is deterministic-true exactly when every lane is true.\<close>

lemma all_equal_replicate: "list_all (\<lambda>c. c = b) cs \<longleftrightarrow> cs = replicate (length cs) b"
  by (induction cs) auto

lemma f_det_true_iff:
  assumes "0 < f_size f"
  shows "(f_deterministic (f_updateDeterministic f) \<and> f_at (f_updateDeterministic f) 0 = Some True)
         \<longleftrightarrow> list_all (\<lambda>b. b) (f_lanes f)"
proof (cases f)
  case (FilterDet n b)
  with assms show ?thesis by (cases b) (auto simp: list_all_iff)
next
  case (FilterGen bs)
  with assms obtain b cs where bs: "bs = b # cs" by (cases bs) auto
  show ?thesis
    unfolding FilterGen bs
    by (cases b) (auto simp: list_all_iff)
qed

lemma f_det_false_iff:
  assumes "0 < f_size f"
  shows "(f_deterministic (f_updateDeterministic f) \<and> f_at (f_updateDeterministic f) 0 = Some False)
         \<longleftrightarrow> list_all Not (f_lanes f)"
proof (cases f)
  case (FilterDet n b)
  with assms show ?thesis by (cases b) (auto simp: list_all_iff)
next
  case (FilterGen bs)
  with assms obtain b cs where bs: "bs = b # cs" by (cases bs) auto
  show ?thesis
    unfolding FilterGen bs
    by (cases b) (auto simp: list_all_iff)
qed

subsection \<open>ScriptEngine::run\<close>

text \<open>
  C1.  A run that \<^verbatim>\<open>ScriptEngine::run\<close> completes successfully is a successful visit of the
  root node from the initial state of the runner, and it leaves a value stack of size
  exactly 1 and a filter stack of size exactly 1.  In the initial state the filter stack
  holds a single deterministic all-true Filter of size \<open>N\<close>, the sample size of the model
  (when there is a model), and the value stack holds a single sentinel RandomVariable.
\<close>

theorem run_stack_sizes:
  "(run env root_node c pl = Inr runner \<longrightarrow>
      visit env root_node (ASTRunner_new env c pl) = Inr runner
      \<and> length (value_stack runner) = 1 \<and> length (filter_stack runner) = 1)
   \<and> filter_stack (ASTRunner_new env c pl) = [FilterDet (sizeN env) True]
   \<and> f_lanes (FilterDet (sizeN env) True) = replicate (sizeN env) True
   \<and> (model env = Some m \<longrightarrow> sizeN env = sizeM m)
   \<and> value_stack (ASTRunner_new env c pl) = [Number (RVGen [])]"
  by (auto simp: run_def ASTRunner_new_def sizeN_def split: sum.splits if_splits)

text \<open>
  An instance of C1: the script \<open>NUMBER y; y = 3;\<close> runs successfully and leaves both stacks
  with one element; a script that is a bare expression leaves two values on the stack and
  the run fails.
\<close>

theorem run_stack_sizes_witness:
  "run example_env
     (SequenceNode
        [DeclarationNumberNode [VariableNode ''y'' None],
         AssignmentNode (VariableNode ''y'' None) (ConstantNumberNode 3)])
     example_context None
   = Inr (example_runner
           \<lparr>runner_context := example_context
              \<lparr>scalars := (scalars example_context)(''y'' \<mapsto> Number (RVDet 2 3))\<rparr>\<rparr>)
   \<and> length (value_stack (example_runner
           \<lparr>runner_context := example_context
              \<lparr>scalars := (scalars example_context)(''y'' \<mapsto> Number (RVDet 2 3))\<rparr>\<rparr>)) = 1
   \<and> length (filter_stack (example_runner
           \<lparr>runner_context := example_context
              \<lparr>scalars := (scalars example_context)(''y'' \<mapsto> Number (RVDet 2 3))\<rparr>\<rparr>)) = 1
   \<and> sizeN example_env = 2
   \<and> run example_env (ConstantNumberNode 3) example_context None
     = Inl (Error ''Error during script execution: ScriptEngine::run(): value stack has wrong size, should be 1'')"
proof -
  have r: "run example_env
     (SequenceNode
        [DeclarationNumberNode [VariableNode ''y'' None],
         AssignmentNode (VariableNode ''y'' None) (ConstantNumberNode 3)])
     example_context None
   = Inr (example_runner
           \<lparr>runner_context := example_context
              \<lparr>scalars := (scalars example_context)(''y'' \<mapsto> Number (RVDet 2 3))\<rparr>\<rparr>)"
    by (simp add: run_def example_defs conditionalResult_def)
  have m: "model example_env = Some example_model"
    by (simp add: example_env_def)
  have e: "run example_env (ConstantNumberNode 3) example_context None
     = Inl (Error ''Error during script execution: ScriptEngine::run(): value stack has wrong size, should be 1'')"
    by (simp add: run_def example_defs)
  show ?thesis
    using run_stack_sizes [where env = example_env and c = example_context and pl = None
        and m = example_model
        and root_node = "SequenceNode
          [DeclarationNumberNode [VariableNode ''y'' None],
           AssignmentNode (VariableNode ''y'' None) (ConstantNumberNode 3)]"
        and runner = "example_runner
           \<lparr>runner_context := example_context
              \<lparr>scalars := (scalars example_context)(''y'' \<mapsto> Number (RVDet 2 3))\<rparr>\<rparr>"]
      r m e
    by (simp del: visit.simps add: example_model_def)
qed

subsection \<open>pay and logpay\<close>

text \<open>
  C2.  Let the payment date expression of \<open>pay(amount, obs, pay, ccy)\<close> evaluate to the date
  \<open>pay\<close>.  If \<open>pay\<close> is on or before the reference date of the model, the engine pushes the
  deterministic zero RandomVariable of size \<open>N\<close>: the state is the one after the evaluation
  of the payment date, nothing else is evaluated and the result does not depend on the
  \<^verbatim>\<open>pay\<close> function of the model.  Otherwise, the other arguments being a number, an event
  and a currency, the engine requires \<open>obs \<le> pay\<close> and pushes
  \<open>model.pay(amount, obs, pay, ccy)\<close>.
\<close>

theorem pay_past_payment_rule:
  assumes "visit env a2 s = Inr s1"
    and "pop s1 = Inr (Event pay, s2)"
    and "model env = Some m"
  shows
    "(pay \<le> referenceDate m \<longrightarrow>
        visit env (FunctionPayNode a0 a1 a2 a3) s
          = Inr (push (Number (RVDet (sizeM m) 0)) s2))
     \<and> (\<not> pay \<le> referenceDate m
          \<and> visit env a0 s2 = Inr s3 \<and> visit env a1 s3 = Inr s4 \<and> visit env a3 s4 = Inr s5
          \<and> pop s5 = Inr (Currency ccy, s6) \<and> pop s6 = Inr (Event obs, s7)
          \<and> pop s7 = Inr (Number amount, s8) \<longrightarrow>
        visit env (FunctionPayNode a0 a1 a2 a3) s
          = (if \<not> obs \<le> pay
             then Inl (Error ''observation date <= payment date required'')
             else (case payM m amount obs pay ccy of
                     Inl e \<Rightarrow> Inl e
                   | Inr result \<Rightarrow> Inr (push (Number result) s8))))"
  using assms by (auto simp: sizeN_def split: option.splits sum.splits)

text \<open>
  C9.  When the payment date of the non-logging \<open>pay\<close> is on or before the reference date,
  the call succeeds and its result is the same whatever the amount, observation date and
  currency expressions are: they are not evaluated, so an error inside them is not raised.
  \<open>logpay\<close> always evaluates them, in the order amount, observation date, currency, and an
  error raised by one of them is the result of the call.
\<close>

theorem pay_arguments_not_evaluated:
  assumes "visit env a2 s = Inr s1"
    and "pop s1 = Inr (Event pay, s2)"
    and "model env = Some m"
  shows
    "(pay \<le> referenceDate m \<longrightarrow>
        visit env (FunctionPayNode a0 a1 a2 a3) s
          = visit env (FunctionPayNode b0 b1 a2 b3) s
        \<and> (\<exists>r. visit env (FunctionPayNode a0 a1 a2 a3) s = Inr r))
     \<and> (visit env a0 s2 = Inl e \<longrightarrow>
          visit env (FunctionLogPayNode a0 a1 a2 a3 a4 a5 a6) s = Inl e)
     \<and> (visit env a0 s2 = Inr s3 \<and> visit env a1 s3 = Inl e \<longrightarrow>
          visit env (FunctionLogPayNode a0 a1 a2 a3 a4 a5 a6) s = Inl e)
     \<and> (visit env a0 s2 = Inr s3 \<and> visit env a1 s3 = Inr s4 \<and> visit env a3 s4 = Inl e \<longrightarrow>
          visit env (FunctionLogPayNode a0 a1 a2 a3 a4 a5 a6) s = Inl e)"
  using assms by (auto simp: sizeN_def split: option.splits sum.splits)

text \<open>
  Instances of C2: with a model whose \<^verbatim>\<open>pay\<close> throws whenever it is called, a payment on
  date \<open>5\<close> (reference date \<open>10\<close>) is the zero variable; a payment on date \<open>20\<close> observed on
  date \<open>10\<close> is what the model returns; a payment on the reference date itself is zero even
  though its observation date is later.
\<close>

theorem pay_past_payment_rule_witness:
  "visit (example_env\<lparr>model := Some (example_model\<lparr>payM := (\<lambda>amount obs pay ccy.
                                          Inl (Error ''model pay invoked''))\<rparr>)\<rparr>)
     (FunctionPayNode (ConstantNumberNode 7) (VariableNode ''Today'' None)
        (VariableNode ''Past'' None) (VariableNode ''USD'' None)) example_runner
   = Inr (push (Number (RVDet 2 0)) example_runner)
   \<and> visit example_env
     (FunctionPayNode (ConstantNumberNode 7) (VariableNode ''Today'' None)
        (VariableNode ''Future'' None) (VariableNode ''USD'' None)) example_runner
   = Inr (push (Number (RVDet 2 7)) example_runner)
   \<and> visit example_env
     (FunctionPayNode (ConstantNumberNode 7) (VariableNode ''Future'' None)
        (VariableNode ''Today'' None) (VariableNode ''USD'' None)) example_runner
   = Inr (push (Number (RVDet 2 0)) example_runner)"
proof -
  let ?env = "example_env\<lparr>model := Some (example_model\<lparr>payM := (\<lambda>amount obs pay ccy.
                                          Inl (Error ''model pay invoked''))\<rparr>)\<rparr>"
  let ?m = "example_model\<lparr>payM := (\<lambda>amount obs pay ccy. Inl (Error ''model pay invoked''))\<rparr>"
  have p: "visit ?env (VariableNode ''Past'' None) example_runner
             = Inr (push (Event 5) example_runner)"
    by (simp add: example_defs)
  have f: "visit example_env (VariableNode ''Future'' None) example_runner
             = Inr (push (Event 20) example_runner)"
    by (simp add: example_defs)
  have t: "visit example_env (VariableNode ''Today'' None) example_runner
             = Inr (push (Event 10) example_runner)"
    by (simp add: example_defs)
  have pp: "pop (push (Event d) example_runner) = Inr (Event d, example_runner)" for d
    by (simp add: example_defs)
  have m: "model ?env = Some ?m" "model example_env = Some example_model"
    by (simp_all add: example_env_def)
  have args: "visit example_env (ConstantNumberNode 7) example_runner
                = Inr (push (Number (RVDet 2 7)) example_runner)
     \<and> visit example_env (VariableNode ''Today'' None) (push (Number (RVDet 2 7)) example_runner)
                = Inr (push (Event 10) (push (Number (RVDet 2 7)) example_runner))
     \<and> visit example_env (VariableNode ''USD'' None)
          (push (Event 10) (push (Number (RVDet 2 7)) example_runner))
                = Inr (push (Currency ''USD'')
                        (push (Event 10) (push (Number (RVDet 2 7)) example_runner)))
     \<and> pop (push (Currency ''USD'') (push (Event 10) (push (Number (RVDet 2 7)) example_runner)))
         = Inr (Currency ''USD'', push (Event 10) (push (Number (RVDet 2 7)) example_runner))
     \<and> pop (push (Event 10) (push (Number (RVDet 2 7)) example_runner))
         = Inr (Event 10, push (Number (RVDet 2 7)) example_runner)
     \<and> pop (push (Number (RVDet 2 7)) example_runner) = Inr (Number (RVDet 2 7), example_runner)"
    by (simp add: example_defs)
  show ?thesis
    using pay_past_payment_rule [OF p pp m(1), where ?a0.0 = "ConstantNumberNode 7"
        and ?a1.0 = "VariableNode ''Today'' None" and ?a3.0 = "VariableNode ''USD'' None"]
      pay_past_payment_rule [OF f pp m(2), where ?a0.0 = "ConstantNumberNode 7"
        and ?s3.0 = "push (Number (RVDet 2 7)) example_runner"
        and ?a1.0 = "VariableNode ''Today'' None"
        and ?s4.0 = "push (Event 10) (push (Number (RVDet 2 7)) example_runner)"
        and ?a3.0 = "VariableNode ''USD'' None"
        and ?s5.0 = "push (Currency ''USD'') (push (Event 10) (push (Number (RVDet 2 7)) example_runner))"
        and ccy = "''USD''"
        and ?s6.0 = "push (Event 10) (push (Number (RVDet 2 7)) example_runner)"
        and obs = 10
        and ?s7.0 = "push (Number (RVDet 2 7)) example_runner"
        and amount = "RVDet 2 7" and ?s8.0 = example_runner]
      pay_past_payment_rule [OF t pp m(2), where ?a0.0 = "ConstantNumberNode 7"
        and ?a1.0 = "VariableNode ''Future'' None" and ?a3.0 = "VariableNode ''USD'' None"]
      args
    by (simp del: visit.simps add: example_model_def)
qed

text \<open>
  An instance of C9: with an undefined variable as amount, a node without visitor as
  observation date and an out-of-bounds subscript as currency, \<open>pay\<close> on a past date yields
  zero and \<open>logpay\<close> raises ``variable is not defined''.
\<close>

theorem pay_arguments_not_evaluated_witness:
  "visit example_env
     (FunctionPayNode (VariableNode ''undefined'' None) UnhandledNode
        (VariableNode ''Past'' None) (VariableNode ''a'' (Some (ConstantNumberNode 9))))
     example_runner
   = Inr (push (Number (RVDet 2 0)) example_runner)
   \<and> visit example_env
     (FunctionLogPayNode (VariableNode ''undefined'' None) UnhandledNode
        (VariableNode ''Past'' None) (VariableNode ''a'' (Some (ConstantNumberNode 9)))
        None None None)
     example_runner
   = Inl (Error ''variable is not defined.'')"
proof -
  have p: "visit example_env (VariableNode ''Past'' None) example_runner
             = Inr (push (Event 5) example_runner)"
    by (simp add: example_defs)
  have pp: "pop (push (Event 5) example_runner) = Inr (Event 5, example_runner)"
    by (simp add: example_defs)
  have m: "model example_env = Some example_model"
    by (simp add: example_env_def)
  have u: "visit example_env (VariableNode ''undefined'' None) example_runner
             = Inl (Error ''variable is not defined.'')"
    by (simp add: example_defs)
  have z: "visit example_env
     (FunctionPayNode (ConstantNumberNode 7) (VariableNode ''Today'' None)
        (VariableNode ''Past'' None) (VariableNode ''USD'' None)) example_runner
   = Inr (push (Number (RVDet 2 0)) example_runner)"
    by (simp add: example_defs)
  show ?thesis
    using pay_arguments_not_evaluated [OF p pp m,
        where ?a0.0 = "VariableNode ''undefined'' None" and ?a1.0 = UnhandledNode
          and ?a3.0 = "VariableNode ''a'' (Some (ConstantNumberNode 9))"
          and ?b0.0 = "ConstantNumberNode 7" and ?b1.0 = "VariableNode ''Today'' None"
          and ?b3.0 = "VariableNode ''USD'' None"
          and e = "Error ''variable is not defined.''"
          and ?a4.0 = None and ?a5.0 = None and ?a6.0 = None] u z
    by (simp del: visit.simps add: example_model_def)
qed

subsection \<open>IF\<close>

lemma filter_pop_push [simp]: "filter_pop (filter_push f s) = Inr s"
  by (simp add: filter_pop_def filter_push_def)

text \<open>
  C3.  For \<open>IF c THEN t ELSE e\<close> with condition value \<open>cond\<close> under the mask \<open>m\<close>: the mask
  pushed for the THEN branch has the lanes \<open>m \<and> cond\<close>, the one for the ELSE branch the lanes
  \<open>m \<and> \<not> cond\<close>; a branch is evaluated if and only if its mask is non-deterministic or
  deterministically true, and the mask is popped afterwards.  Under a deterministic-false
  THEN mask the result does not depend on \<open>t\<close> at all (without ELSE the state is the one
  after the evaluation of the condition), so that a \<open>REQUIRE\<close> inside \<open>t\<close> never fires.
\<close>

theorem if_then_else_masks:
  assumes "visit env c s = Inr s1"
    and "pop s1 = Inr (Filter cond, s2)"
    and "filter_top s2 = Inr m"
    and "f_and m cond = Inr cf1"
    and "f_and m (f_not cond) = Inr cf2"
  shows
    "f_lanes (f_updateDeterministic cf1) = map2 (\<and>) (f_lanes m) (f_lanes cond)
     \<and> f_lanes (f_updateDeterministic cf2) = map2 (\<and>) (f_lanes m) (map Not (f_lanes cond))
     \<and> visit env (IfThenElseNode c t None) s =
         (case (if \<not> f_deterministic (f_updateDeterministic cf1)
                   \<or> f_at (f_updateDeterministic cf1) 0 = Some True
                then visit env t (filter_push (f_updateDeterministic cf1) s2)
                else Inr (filter_push (f_updateDeterministic cf1) s2)) of
            Inl e \<Rightarrow> Inl e
          | Inr s4 \<Rightarrow> filter_pop s4)
     \<and> visit env (IfThenElseNode c t (Some el)) s =
         (case visit env (IfThenElseNode c t None) s of
            Inl e \<Rightarrow> Inl e
          | Inr s5 \<Rightarrow>
              (case (if \<not> f_deterministic (f_updateDeterministic cf2)
                        \<or> f_at (f_updateDeterministic cf2) 0 = Some True
                     then visit env el (filter_push (f_updateDeterministic cf2) s5)
                     else Inr (filter_push (f_updateDeterministic cf2) s5)) of
                 Inl e \<Rightarrow> Inl e
               | Inr s7 \<Rightarrow> filter_pop s7))
     \<and> (f_updateDeterministic cf1 = FilterDet (f_size m) False
          \<longrightarrow> visit env (IfThenElseNode c t None) s = Inr s2
              \<and> visit env (IfThenElseNode c t (Some el)) s =
                  (case (if \<not> f_deterministic (f_updateDeterministic cf2)
                            \<or> f_at (f_updateDeterministic cf2) 0 = Some True
                         then visit env el (filter_push (f_updateDeterministic cf2) s2)
                         else Inr (filter_push (f_updateDeterministic cf2) s2)) of
                     Inl e \<Rightarrow> Inl e
                   | Inr s7 \<Rightarrow> filter_pop s7))"
proof -
  have l1: "f_lanes (f_updateDeterministic cf1) = map2 (\<and>) (f_lanes m) (f_lanes cond)"
    using assms(4) f_binary_lanes[of "(\<and>)" m cond cf1] by (simp add: f_and_def)
  have l2: "f_lanes (f_updateDeterministic cf2) = map2 (\<and>) (f_lanes m) (map Not (f_lanes cond))"
    using assms(5) f_binary_lanes[of "(\<and>)" m "f_not cond" cf2] by (simp add: f_and_def)
  have n: "visit env (IfThenElseNode c t None) s =
         (case (if \<not> f_deterministic (f_updateDeterministic cf1)
                   \<or> f_at (f_updateDeterministic cf1) 0 = Some True
                then visit env t (filter_push (f_updateDeterministic cf1) s2)
                else Inr (filter_push (f_updateDeterministic cf1) s2)) of
            Inl e \<Rightarrow> Inl e
          | Inr s4 \<Rightarrow> filter_pop s4)"
    using assms(1-4) by (simp split: sum.splits)
  have e: "visit env (IfThenElseNode c t (Some el)) s =
         (case visit env (IfThenElseNode c t None) s of
            Inl e \<Rightarrow> Inl e
          | Inr s5 \<Rightarrow>
              (case (if \<not> f_deterministic (f_updateDeterministic cf2)
                        \<or> f_at (f_updateDeterministic cf2) 0 = Some True
                     then visit env el (filter_push (f_updateDeterministic cf2) s5)
                     else Inr (filter_push (f_updateDeterministic cf2) s5)) of
                 Inl e \<Rightarrow> Inl e
               | Inr s7 \<Rightarrow> filter_pop s7))"
    using assms by (simp split: sum.splits)
  have d: "visit env (IfThenElseNode c t None) s = Inr s2"
    if "f_updateDeterministic cf1 = FilterDet (f_size m) False"
    unfolding n using that by simp
  show ?thesis
    using l1 l2 n e d by (simp del: visit.simps)
qed

text \<open>
  An instance of C3, the short-circuit scenario of the specification:
  \<open>IF F THEN REQUIRE(F) ELSE x = 1\<close> with \<open>F\<close> deterministically false completes and sets
  \<open>x\<close> to \<open>1\<close>, although \<open>REQUIRE(F)\<close> on its own fails.
\<close>

theorem if_then_else_witness:
  "visit example_env
     (IfThenElseNode (VariableNode ''F'' None)
        (RequireNode (VariableNode ''F'' None))
        (Some (AssignmentNode (VariableNode ''x'' None) (ConstantNumberNode 1))))
     example_runner
   = Inr (example_runner
           \<lparr>runner_context := example_context
              \<lparr>scalars := (scalars example_context)(''x'' \<mapsto> Number (RVDet 2 1))\<rparr>\<rparr>)
   \<and> visit example_env (RequireNode (VariableNode ''F'' None)) example_runner
     = Inl (Error ''required condition is not (always) fulfilled'')"
proof -
  have c: "visit example_env (VariableNode ''F'' None) example_runner
             = Inr (push (Filter (FilterDet 2 False)) example_runner)"
    by (simp add: example_defs)
  have p: "pop (push (Filter (FilterDet 2 False)) example_runner)
             = Inr (Filter (FilterDet 2 False), example_runner)"
    by (simp add: example_defs)
  have t: "filter_top example_runner = Inr (FilterDet 2 True)"
    by (simp add: example_defs)
  have a1: "f_and (FilterDet 2 True) (FilterDet 2 False) = Inr (FilterDet 2 False)"
    by (simp add: f_and_def f_binary_def)
  have a2: "f_and (FilterDet 2 True) (f_not (FilterDet 2 False)) = Inr (FilterDet 2 True)"
    by (simp add: f_and_def f_binary_def)
  have r: "visit example_env (RequireNode (VariableNode ''F'' None)) example_runner
     = Inl (Error ''required condition is not (always) fulfilled'')"
    by (simp add: example_defs f_or_def f_binary_def)
  have el: "visit example_env (AssignmentNode (VariableNode ''x'' None) (ConstantNumberNode 1))
              (filter_push (FilterDet 2 True) example_runner)
            = Inr (filter_push (FilterDet 2 True) example_runner
           \<lparr>runner_context := example_context
              \<lparr>scalars := (scalars example_context)(''x'' \<mapsto> Number (RVDet 2 1))\<rparr>\<rparr>)"
    by (simp add: example_defs conditionalResult_def)
  show ?thesis
    using if_then_else_masks [OF c p t a1 a2,
        of "RequireNode (VariableNode ''F'' None)"
           "AssignmentNode (VariableNode ''x'' None) (ConstantNumberNode 1)"] r el
    by (simp del: visit.simps add: filter_pop_def filter_push_def)
qed

subsection \<open>REQUIRE\<close>

lemma require_lanes:
  assumes "f_size m = f_size cond" "f_or (f_not m) cond = Inr c"
  shows "list_all (\<lambda>b. b) (f_lanes c) \<longleftrightarrow> (\<forall>k < f_size m. f_lanes m ! k \<longrightarrow> f_lanes cond ! k)"
proof -
  have "f_lanes c = map2 (\<or>) (map Not (f_lanes m)) (f_lanes cond)"
    using assms(2) f_binary_lanes[of "(\<or>)" "f_not m" cond c] by (simp add: f_or_def)
  then show ?thesis
    using assms(1) by (auto simp: list_all_length)
qed

text \<open>
  C4.  \<open>REQUIRE cond\<close> under the active filter \<open>m\<close> (of the size of the condition, with at
  least one lane) succeeds if and only if on every lane \<open>k\<close> the filter implies the
  condition; otherwise it raises ``required condition is not (always) fulfilled''.  In
  particular \<open>REQUIRE false\<close> succeeds under an all-false filter and fails under a filter
  with at least one true lane.
\<close>

theorem require_iff_filter_implies_condition:
  assumes "visit env a s = Inr s1"
    and "pop s1 = Inr (Filter cond, s2)"
    and "filter_top s2 = Inr m"
    and "f_size m = f_size cond"
    and "0 < f_size m"
  shows "visit env (RequireNode a) s =
           (if \<forall>k < f_size m. f_lanes m ! k \<longrightarrow> f_lanes cond ! k
            then Inr s2
            else Inl (Error ''required condition is not (always) fulfilled''))
         \<and> (list_all Not (f_lanes cond) \<and> list_all Not (f_lanes m)
              \<longrightarrow> visit env (RequireNode a) s = Inr s2)
         \<and> (list_all Not (f_lanes cond) \<and> (\<exists>k < f_size m. f_lanes m ! k)
              \<longrightarrow> visit env (RequireNode a) s
                    = Inl (Error ''required condition is not (always) fulfilled''))"
proof -
  obtain c where c: "f_or (f_not m) cond = Inr c"
    using f_binary_ok[of "f_not m" cond "(\<or>)"] assms(4) by (auto simp: f_or_def)
  have sz: "0 < f_size c"
    using f_binary_size[of "(\<or>)" "f_not m" cond c] c assms(5) by (simp add: f_or_def)
  have main: "visit env (RequireNode a) s =
           (if \<forall>k < f_size m. f_lanes m ! k \<longrightarrow> f_lanes cond ! k
            then Inr s2
            else Inl (Error ''required condition is not (always) fulfilled''))"
    using assms(1-3) c f_det_true_iff[OF sz] require_lanes[OF assms(4) c]
    by simp
  have len: "length (f_lanes cond) = f_size m" "length (f_lanes m) = f_size m"
    using assms(4) by simp_all
  have vac: "list_all Not (f_lanes m) \<Longrightarrow> \<forall>k < f_size m. f_lanes m ! k \<longrightarrow> f_lanes cond ! k"
    using len by (auto simp: list_all_length)
  have fail: "list_all Not (f_lanes cond) \<Longrightarrow> \<exists>k < f_size m. f_lanes m ! k
              \<Longrightarrow> \<not> (\<forall>k < f_size m. f_lanes m ! k \<longrightarrow> f_lanes cond ! k)"
    using len by (auto simp: list_all_length)
  show ?thesis
    using main vac fail by auto
qed

text \<open>
  Instances of C4 with two lanes: a condition that holds on the one lane where the filter is
  true passes; \<open>REQUIRE false\<close> passes under the all-false filter and fails under a filter
  with one true lane.
\<close>

theorem require_witness:
  "visit example_env (RequireNode (VariableNode ''M'' None))
     (filter_push (FilterGen [True, False]) example_runner)
     = Inr (filter_push (FilterGen [True, False]) example_runner)
   \<and> visit example_env (RequireNode (VariableNode ''F'' None))
     (filter_push (FilterDet 2 False) example_runner)
     = Inr (filter_push (FilterDet 2 False) example_runner)
   \<and> visit example_env (RequireNode (VariableNode ''F'' None))
     (filter_push (FilterGen [True, False]) example_runner)
     = Inl (Error ''required condition is not (always) fulfilled'')"
proof -
  let ?s = "filter_push (FilterGen [True, False]) example_runner"
  let ?z = "filter_push (FilterDet 2 False) example_runner"
  have m: "visit example_env (VariableNode ''M'' None) ?s
             = Inr (push (Filter (FilterGen [True, False])) ?s)"
    by (simp add: example_defs)
  have f: "visit example_env (VariableNode ''F'' None) ?s
             = Inr (push (Filter (FilterDet 2 False)) ?s)"
    by (simp add: example_defs)
  have fz: "visit example_env (VariableNode ''F'' None) ?z
             = Inr (push (Filter (FilterDet 2 False)) ?z)"
    by (simp add: example_defs)
  have pm: "pop (push (Filter (FilterGen [True, False])) ?s) = Inr (Filter (FilterGen [True, False]), ?s)"
    by (simp add: example_defs)
  have pf: "pop (push (Filter (FilterDet 2 False)) ?s) = Inr (Filter (FilterDet 2 False), ?s)"
    by (simp add: example_defs)
  have pfz: "pop (push (Filter (FilterDet 2 False)) ?z) = Inr (Filter (FilterDet 2 False), ?z)"
    by (simp add: example_defs)
  have t: "filter_top ?s = Inr (FilterGen [True, False])"
    by (simp add: example_defs)
  have tz: "filter_top ?z = Inr (FilterDet 2 False)"
    by (simp add: example_defs)
  have all2: "(\<forall>k<2. P k) \<longleftrightarrow> P 0 \<and> P (Suc 0)"
    "(\<forall>k<Suc (Suc 0). P k) \<longleftrightarrow> P 0 \<and> P (Suc 0)"
    "(\<exists>k<2. P k) \<longleftrightarrow> P 0 \<or> P (Suc 0)"
    "(\<exists>k<Suc (Suc 0). P k) \<longleftrightarrow> P 0 \<or> P (Suc 0)" for P :: "nat \<Rightarrow> bool"
    by (auto simp: less_Suc_eq numeral_2_eq_2)
  show ?thesis
    using require_iff_filter_implies_condition [OF m pm t]
      require_iff_filter_implies_condition [OF f pf t]
      require_iff_filter_implies_condition [OF fz pfz tz]
    by (simp del: visit.simps add: all2)
qed

subsection \<open>FOR\<close>

lemma spec_loopValues_empty:
  "(0 < s \<and> b < a) \<or> (s < 0 \<and> a < b) \<Longrightarrow> spec_loopValues a b s = []"
proof (erule disjE)
  assume h: "0 < s \<and> b < a"
  then have "(b - a) div s < 0"
    by (simp add: pos_imp_zdiv_neg_iff)
  then show ?thesis using h by (simp add: spec_loopValues_def)
next
  assume h: "s < 0 \<and> a < b"
  then have "(a - b) div (- s) < 0"
    by (simp add: pos_imp_zdiv_neg_iff)
  then show ?thesis using h by (simp add: spec_loopValues_def)
qed

lemma map_upt_Suc_shift:
  "map f [0..<Suc n] = f 0 # map (\<lambda>i. f (Suc i)) [0..<n]"
  by (simp add: upt_conv_Cons map_Suc_upt[symmetric] del: upt_Suc)

lemma progression_step:
  fixes a t x :: int
  assumes "0 < t" "0 \<le> x"
  shows "map (\<lambda>i. a + int i * d) [0..<nat (x div t + 1)]
         = a # map (\<lambda>i. (a + d) + int i * d) [0..<nat ((x - t) div t + 1)]"
proof -
  have k: "0 \<le> x div t"
    using assms by (simp add: pos_imp_zdiv_nonneg_iff)
  have "(x - t + t) div t = (x - t) div t + 1"
    using assms(1) by (subst div_add_self2) simp_all
  then have d: "(x - t) div t + 1 = x div t" by simp
  have n: "nat (x div t + 1) = Suc (nat (x div t))"
    using k by (simp add: nat_add_distrib)
  show ?thesis
    unfolding d n map_upt_Suc_shift
    by (simp add: algebra_simps)
qed

lemma spec_loopValues_step:
  assumes "(0 < s \<and> a \<le> b) \<or> (s < 0 \<and> b \<le> a)"
  shows "spec_loopValues a b s = a # spec_loopValues (a + s) b s"
  using assms
proof (elim disjE conjE)
  assume h: "0 < s" "a \<le> b"
  have e: "b - (a + s) = (b - a) - s" by simp
  show ?thesis
    using h progression_step[of s "b - a" a s] by (simp add: spec_loopValues_def e)
next
  assume h: "s < 0" "b \<le> a"
  have e: "a + s - b = a - b + s" by simp
  show ?thesis
    using h progression_step[of "- s" "a - b" a s] by (simp add: spec_loopValues_def e)
qed

lemma close_enough_all_det:
  "close_enough_all v (RVDet n x) \<longleftrightarrow> r_lanes v = replicate n x"
  by (cases v) (auto simp: close_enough_all_def)

lemma visit_loop_in_range:
  assumes "(0 < sl \<and> cl \<le> bl) \<or> (sl < 0 \<and> bl \<le> cl)"
  shows "visit_loop env name body cl bl sl s =
           (case spec_loopPass env name body cl s of
              Inl e \<Rightarrow> Inl e
            | Inr s' \<Rightarrow>
                if in_long (cl + sl) then visit_loop env name body (cl + sl) bl sl s'
                else Inl (OutOfRange ''signed overflow of the loop counter''))"
  using assms
  by (subst visit_loop.simps)
     (auto simp: spec_loopPass_def close_enough_all_det
           split: sum.splits option.splits ValueType.splits)

lemma visit_loop_out_of_range:
  assumes "\<not> ((0 < sl \<and> cl \<le> bl) \<or> (sl < 0 \<and> bl \<le> cl))"
  shows "visit_loop env name body cl bl sl s = Inr s"
  using assms by (subst visit_loop.simps) auto

lemma in_long_next:
  assumes "(0 < sl \<and> cl \<le> bl) \<or> (sl < 0 \<and> bl \<le> cl)"
    and "in_long cl" and "in_long (bl + sl)"
  shows "in_long (cl + sl)"
  using assms by (auto simp: in_long_def)

lemma visit_loop_refines:
  assumes "sl \<noteq> 0" and "in_long (bl + sl)" and "in_long cl"
  shows "visit_loop env name body cl bl sl s
         = foldE (spec_loopPass env name body) (spec_loopValues cl bl sl) s"
  using assms(3)
proof (induction "if sl > 0 then nat (bl - cl + 1) else nat (cl - bl + 1)"
       arbitrary: cl s rule: less_induct)
  case less
  show ?case
  proof (cases "(0 < sl \<and> cl \<le> bl) \<or> (sl < 0 \<and> bl \<le> cl)")
    case True
    have smaller: "(if sl > 0 then nat (bl - (cl + sl) + 1) else nat ((cl + sl) - bl + 1))
                   < (if sl > 0 then nat (bl - cl + 1) else nat (cl - bl + 1))"
      using True by auto
    have next_ok: "in_long (cl + sl)"
      using in_long_next[OF True less.prems assms(2)] .
    show ?thesis
      unfolding visit_loop_in_range[OF True] spec_loopValues_step[OF True] foldE.simps
      using less.hyps[OF smaller next_ok] next_ok by (simp split: sum.splits)
  next
    case False
    then have "(0 < sl \<and> bl < cl) \<or> (sl < 0 \<and> cl < bl)"
      using assms(1) by auto
    then show ?thesis
      using visit_loop_out_of_range[OF False] by (simp add: spec_loopValues_empty)
  qed
qed

lemma lround_nearest: "\<bar>real_of_int (lround x) - x\<bar> \<le> 1 / 2"
proof (cases "0 \<le> x")
  case True
  have "real_of_int \<lfloor>x + 1 / 2\<rfloor> \<le> x + 1 / 2" "x + 1 / 2 < real_of_int \<lfloor>x + 1 / 2\<rfloor> + 1"
    by linarith+
  then have "\<bar>real_of_int \<lfloor>x + 1 / 2\<rfloor> - x\<bar> \<le> 1 / 2"
    by linarith
  then show ?thesis by (simp only: lround_def True if_True)
next
  case False
  have "x - 1 / 2 \<le> real_of_int \<lceil>x - 1 / 2\<rceil>" "real_of_int \<lceil>x - 1 / 2\<rceil> - 1 < x - 1 / 2"
    by linarith+
  then have "\<bar>real_of_int \<lceil>x - 1 / 2\<rceil> - x\<bar> \<le> 1 / 2"
    by linarith
  then show ?thesis by (simp only: lround_def False if_False)
qed

lemma lround_of_int [simp]: "lround (real_of_int i) = i"
  by (simp add: lround_def) linarith+

lemma lround_consts [simp]:
  "lround 0 = 0" "lround 1 = 1" "lround (numeral n) = numeral n"
  using lround_of_int[of 0] lround_of_int[of 1] lround_of_int[of "numeral n"] by simp_all

lemma lround_nonzero: "lround x \<noteq> 0 \<Longrightarrow> x \<noteq> 0"
  by auto




subsection \<open>SORT and PERMUTE\<close>

lemma lane_kept_refl: "lane_kept k c c"
  by (simp add: lane_kept_def)

lemma lane_kept_trans: "lane_kept k c c' \<Longrightarrow> lane_kept k c' c'' \<Longrightarrow> lane_kept k c c''"
  unfolding lane_kept_def by (metis)

lemma r_lanes_length [simp]: "length (r_lanes r) = r_size r"
  by (cases r) auto

lemma rv_set_lane_kept:
  assumes "rv_set l' k' v c = Inr c'" "k \<noteq> k'"
  shows "lane_kept k c c'"
proof -
  obtain r0 vec where r0: "rv_at c l' = Inr r0" and k': "k' < r_size r0"
    and vec: "arrays c (fst l') = Some vec"
    and c': "c' = c\<lparr>arrays := (arrays c)(fst l' \<mapsto> vec[snd l' := Number (RVGen ((r_lanes r0)[k' := v]))])\<rparr>"
    using assms(1)
    by (auto simp: rv_set_def r_set_def split: sum.splits option.splits if_splits)
  have i: "snd l' < length vec" "vec ! snd l' = Number r0"
    using r0 vec by (auto simp: rv_at_def split: if_splits ValueType.splits)
  show ?thesis
    unfolding lane_kept_def
  proof (intro allI impI)
    fix l r
    assume r: "rv_at c l = Inr r"
    show "\<exists>r'. rv_at c' l = Inr r' \<and> r_size r' = r_size r
              \<and> (k < r_size r \<longrightarrow> r_lanes r' ! k = r_lanes r ! k)"
    proof (cases "l = l'")
      case True
      then have "r = r0" using r r0 by simp
      then show ?thesis
        using True i vec assms(2) by (simp add: c' rv_at_def)
    next
      case False
      then have "rv_at c' l = rv_at c l"
        using vec i by (cases l; cases l') (auto simp: c' rv_at_def)
      then show ?thesis using r by simp
    qed
  qed
qed

lemma foldE_lane_kept:
  assumes "\<And>x c c'. f x c = Inr c' \<Longrightarrow> lane_kept k c c'"
  shows "foldE f xs c = Inr c' \<Longrightarrow> lane_kept k c c'"
proof (induction xs arbitrary: c)
  case Nil
  then show ?case by (simp add: lane_kept_refl)
next
  case (Cons x xs)
  then obtain c1 where 1: "f x c = Inr c1" and 2: "foldE f xs c1 = Inr c'"
    by (auto split: sum.splits)
  show ?case
    using lane_kept_trans[OF assms[OF 1] Cons.IH[OF 2]] .
qed

lemma write_loop_lane_kept:
  assumes "foldE (\<lambda>i c'. rv_set (g i) k' (h i) c') xs c = Inr c'" "k \<noteq> k'"
  shows "lane_kept k c c'"
  by (rule foldE_lane_kept[OF _ assms(1)]) (rule rv_set_lane_kept[OF _ assms(2)])

lemma write2_loop_lane_kept:
  assumes "foldE (\<lambda>i c'. (case rv_set (g i) k' (h i) c' of
                             Inl e \<Rightarrow> Inl e
                           | Inr c'' \<Rightarrow> rv_set (g2 i) k' (h2 i) c'')) xs c = Inr c'"
    and "k \<noteq> k'"
  shows "lane_kept k c c'"
proof (rule foldE_lane_kept[OF _ assms(1)])
  fix x c c'
  assume "(case rv_set (g x) k' (h x) c of Inl e \<Rightarrow> Inl e
           | Inr c'' \<Rightarrow> rv_set (g2 x) k' (h2 x) c'') = Inr c'"
  then obtain c1 where "rv_set (g x) k' (h x) c = Inr c1" "rv_set (g2 x) k' (h2 x) c1 = Inr c'"
    by (auto split: sum.splits)
  then show "lane_kept k c c'"
    using rv_set_lane_kept[OF _ assms(2)] lane_kept_trans by blast
qed

lemma masked_lane_skipped:
  assumes "f_at flt k = Some False"
  shows "sortLane flt x y k c = Inr c"
    and "sortLaneP flt x y p k c = Inr c"
    and "permuteLane flt x y p k c = Inr c"
  using assms by (simp_all add: sortLane_def sortLaneP_def permuteLane_def)

lemma sortLane_lane_kept:
  assumes "sortLane flt x y k' c = Inr c'" "f_at flt k = Some False"
  shows "lane_kept k c c'"
proof (cases "k' = k")
  case True
  then show ?thesis using assms masked_lane_skipped(1)[OF assms(2)] by (simp add: lane_kept_refl)
next
  case False
  then have ne: "k \<noteq> k'" by simp
  show ?thesis
    using assms(1) write_loop_lane_kept[OF _ ne]
    by (auto simp: sortLane_def lane_kept_refl split: option.splits bool.splits sum.splits)
qed

lemma sortLaneP_lane_kept:
  assumes "sortLaneP flt x y p k' c = Inr c'" "f_at flt k = Some False"
  shows "lane_kept k c c'"
proof (cases "k' = k")
  case True
  then show ?thesis using assms masked_lane_skipped(2)[OF assms(2)] by (simp add: lane_kept_refl)
next
  case False
  then have ne: "k \<noteq> k'" by simp
  show ?thesis
    using assms(1) write2_loop_lane_kept[OF _ ne]
    by (auto simp: sortLaneP_def Let_def lane_kept_refl
             split: option.splits bool.splits sum.splits)
qed

lemma permuteLane_lane_kept:
  assumes "permuteLane flt x y p k' c = Inr c'" "f_at flt k = Some False"
  shows "lane_kept k c c'"
proof (cases "k' = k")
  case True
  then show ?thesis using assms masked_lane_skipped(3)[OF assms(2)] by (simp add: lane_kept_refl)
next
  case False
  then have ne: "k \<noteq> k'" by simp
  show ?thesis
    using assms(1) write_loop_lane_kept[OF _ ne]
    by (auto simp: permuteLane_def lane_kept_refl split: option.splits bool.splits sum.splits)
qed

lemma visit_SortNode_lane_kept:
  assumes "visit_SortNode arg0 arg1 arg2 s = Inr s'" "filter_top s = Inr flt"
    and "f_at flt k = Some False"
  shows "lane_kept k (runner_context s) (runner_context s')"
proof -
  have A: "lane_kept k c c'" if "foldE (sortLane flt x y) xs c = Inr c'" for x y xs c c'
    using foldE_lane_kept[of "sortLane flt x y" k, OF sortLane_lane_kept[OF _ assms(3)] that] .
  have B: "lane_kept k c c'" if "foldE (sortLaneP flt x y p) xs c = Inr c'" for x y p xs c c'
    using foldE_lane_kept[of "sortLaneP flt x y p" k, OF sortLaneP_lane_kept[OF _ assms(3)] that] .
  show ?thesis
    using assms(1,2)
    by (auto simp: visit_SortNode_def Let_def split: sum.splits if_splits dest: A B)
qed

lemma visit_PermuteNode_lane_kept:
  assumes "visit_PermuteNode arg0 arg1 arg2 s = Inr s'" "filter_top s = Inr flt"
    and "f_at flt k = Some False"
  shows "lane_kept k (runner_context s) (runner_context s')"
proof -
  have A: "lane_kept k c c'" if "foldE (permuteLane flt x y p) xs c = Inr c'" for x y p xs c c'
    using foldE_lane_kept[of "permuteLane flt x y p" k,
        OF permuteLane_lane_kept[OF _ assms(3)] that] .
  show ?thesis
    using assms(1,2)
    by (auto simp: visit_PermuteNode_def Let_def split: sum.splits if_splits dest: A)
qed

text \<open>
  C10.  Let lane \<open>k\<close> be masked out by the active filter.  After a successful \<open>SORT\<close> or
  \<open>PERMUTE\<close>, every RandomVariable that is an element of an array of the context (the
  target arrays \<open>y\<close> and \<open>p\<close> among them) has its size and its previous value on lane \<open>k\<close>.
  The pass of the loops for lane \<open>k\<close> itself does nothing and raises nothing: it leaves the
  context as it is whatever \<open>x\<close>, \<open>y\<close> and \<open>p\<close> hold on that lane, so the entries of the
  permutation on that lane are not checked against the bounds.
\<close>

theorem sort_permute_masked_lanes:
  assumes "filter_top s = Inr flt"
    and "f_at flt k = Some False"
    and "rv_at (runner_context s) l = Inr r"
    and "k < r_size r"
  shows
    "(visit env (SortNode arg0 arg1 arg2) s = Inr s' \<longrightarrow>
        (\<exists>r'. rv_at (runner_context s') l = Inr r' \<and> r_size r' = r_size r
              \<and> r_lanes r' ! k = r_lanes r ! k))
     \<and> (visit env (PermuteNode arg0 arg1 arg2) s = Inr s'' \<longrightarrow>
        (\<exists>r'. rv_at (runner_context s'') l = Inr r' \<and> r_size r' = r_size r
              \<and> r_lanes r' ! k = r_lanes r ! k))
     \<and> sortLane flt x y k c = Inr c
     \<and> sortLaneP flt x y p k c = Inr c
     \<and> permuteLane flt x y p k c = Inr c"
proof -
  have 1: "\<exists>r'. rv_at (runner_context s') l = Inr r' \<and> r_size r' = r_size r
              \<and> r_lanes r' ! k = r_lanes r ! k"
    if "visit env (SortNode arg0 arg1 arg2) s = Inr s'"
  proof -
    have "lane_kept k (runner_context s) (runner_context s')"
      using visit_SortNode_lane_kept[OF _ assms(1,2), of arg0 arg1 arg2 s'] that by simp
    then show ?thesis
      using assms(3,4) unfolding lane_kept_def by blast
  qed
  have 2: "\<exists>r'. rv_at (runner_context s'') l = Inr r' \<and> r_size r' = r_size r
              \<and> r_lanes r' ! k = r_lanes r ! k"
    if "visit env (PermuteNode arg0 arg1 arg2) s = Inr s''"
  proof -
    have "lane_kept k (runner_context s) (runner_context s'')"
      using visit_PermuteNode_lane_kept[OF _ assms(1,2), of arg0 arg1 arg2 s''] that by simp
    then show ?thesis
      using assms(3,4) unfolding lane_kept_def by blast
  qed
  show ?thesis
    using 1 2 masked_lane_skipped[OF assms(2)] by (simp del: visit.simps)
qed

lemmas sort_permute_defs = visit_SortNode_def visit_PermuteNode_def collect_def checkSizes_def
  rv_size_def rv_at_def sortLane_def sortLaneP_def permuteLane_def rv_lane_def rv_set_def
  r_set_def Let_def numeral_2_eq_2

text \<open>
  Instances of C10 with two lanes of which the second is masked out, on arrays of three
  elements: \<open>PERMUTE(a, b, p)\<close> succeeds although the entries of \<open>p\<close> on the masked lane are
  \<open>7, 8, 9\<close>, and writes the first lane of \<open>b\<close> only; under the all-true filter the same call
  raises ``permuted index out of bounds''.  \<open>SORT(a, b, p)\<close> writes the first lane of \<open>b\<close> and
  \<open>p\<close> and keeps their second lane.
\<close>

theorem sort_permute_masked_lanes_witness:
  "(\<exists>s'. visit example_env
           (PermuteNode (Some (VariableNode ''a'' None)) (Some (VariableNode ''b'' None))
              (Some (VariableNode ''p'' None)))
           (filter_push (FilterGen [True, False]) example_runner) = Inr s'
         \<and> arrays (runner_context s') ''b''
             = Some [Number (RVGen [1, 0]), Number (RVGen [2, 0]), Number (RVGen [3, 0])])
   \<and> visit example_env
        (PermuteNode (Some (VariableNode ''a'' None)) (Some (VariableNode ''b'' None))
           (Some (VariableNode ''p'' None)))
        example_runner
      = Inl (Error ''permuted index out of bounds'')
   \<and> (\<exists>s'. visit example_env
           (SortNode (Some (VariableNode ''a'' None)) (Some (VariableNode ''b'' None))
              (Some (VariableNode ''p'' None)))
           (filter_push (FilterGen [True, False]) example_runner) = Inr s'
         \<and> arrays (runner_context s') ''b''
             = Some [Number (RVGen [1, 0]), Number (RVGen [2, 0]), Number (RVGen [3, 0])]
         \<and> arrays (runner_context s') ''p''
             = Some [Number (RVGen [2, 7]), Number (RVGen [3, 8]), Number (RVGen [1, 9])])"
proof -
  let ?s = "filter_push (FilterGen [True, False]) example_runner"
  let ?P = "PermuteNode (Some (VariableNode ''a'' None)) (Some (VariableNode ''b'' None))
              (Some (VariableNode ''p'' None))"
  let ?S = "SortNode (Some (VariableNode ''a'' None)) (Some (VariableNode ''b'' None))
              (Some (VariableNode ''p'' None))"
  have P: "\<exists>s'. visit example_env ?P ?s = Inr s'
         \<and> arrays (runner_context s') ''b''
             = Some [Number (RVGen [1, 0]), Number (RVGen [2, 0]), Number (RVGen [3, 0])]"
    by (simp add: sort_permute_defs example_defs)
  have S: "\<exists>s'. visit example_env ?S ?s = Inr s'
         \<and> arrays (runner_context s') ''b''
             = Some [Number (RVGen [1, 0]), Number (RVGen [2, 0]), Number (RVGen [3, 0])]
         \<and> arrays (runner_context s') ''p''
             = Some [Number (RVGen [2, 7]), Number (RVGen [3, 8]), Number (RVGen [1, 9])]"
    by (simp add: sort_permute_defs example_defs)
  have E: "visit example_env ?P example_runner = Inl (Error ''permuted index out of bounds'')"
    by (simp add: sort_permute_defs example_defs)
  obtain sP where sP: "visit example_env ?P ?s = Inr sP" using P by blast
  obtain sS where sS: "visit example_env ?S ?s = Inr sS" using S by blast
  have ft: "filter_top ?s = Inr (FilterGen [True, False])"
    by (simp add: example_defs)
  have fa: "f_at (FilterGen [True, False]) 1 = Some False"
    by simp
  have rv: "rv_at (runner_context ?s) (''b'', 0) = Inr (RVDet 2 0)"
    by (simp add: rv_at_def example_defs)
  have lt: "1 < r_size (RVDet 2 0)"
    by simp
  show ?thesis
    using sort_permute_masked_lanes [OF ft fa rv lt, where env = example_env
        and ?arg0.0 = "Some (VariableNode ''a'' None)"
        and ?arg1.0 = "Some (VariableNode ''b'' None)"
        and ?arg2.0 = "Some (VariableNode ''p'' None)" and s' = sS and s'' = sP]
      sP sS P S E
    by (simp del: visit.simps)
qed

end
